theory Spec2Isabelle
  imports Main
begin

section \<open>Common vocabulary\<close>

text \<open>
  Users are identified by their primary key, times are clock readings. Python strings are
  modelled as \<open>string\<close>; characters beyond Latin-1 are outside the model.
\<close>

type_synonym user_id = nat

type_synonym timestamp = nat

text \<open>The exceptions the handlers raise or receive, with the text \<open>str(e)\<close> gives.\<close>

datatype exn =
    DoesNotExist
  | MultipleObjectsReturned
  | IntegrityError
  | ModelError string
  | ValueError string
  | PermissionError string
  | ValidationError string

fun exn_str :: "exn \<Rightarrow> string" where
  "exn_str DoesNotExist = ''ChatSession matching query does not exist.''"
| "exn_str MultipleObjectsReturned = ''get() returned more than one ChatSession''"
| "exn_str IntegrityError = ''UNIQUE constraint failed''"
| "exn_str (ModelError msg) = msg"
| "exn_str (ValueError msg) = msg"
| "exn_str (PermissionError msg) = msg"
| "exn_str (ValidationError msg) = msg"

text \<open>
  \<open>str.strip()\<close>: leading and trailing whitespace removed. \<open>is_space\<close> is
  \<open>str.isspace\<close> on the code points below 256.
\<close>

definition is_space :: "char \<Rightarrow> bool" where
  "is_space c =
     (let n = (of_char c :: nat)
      in (9 \<le> n \<and> n \<le> 13) \<or> (28 \<le> n \<and> n \<le> 32) \<or> n = 133 \<or> n = 160)"

definition strip :: "string \<Rightarrow> string" where
  "strip s = rev (dropWhile is_space (rev (dropWhile is_space s)))"

section \<open>Chat session manager: views.py\<close>

subsection \<open>Tables (models.py: ChatSession, ChatMessage)\<close>

record chat_session =
  cs_pk :: nat
  cs_user :: user_id
  cs_session_id :: string
  cs_created_at :: timestamp
  cs_updated_at :: timestamp
  cs_is_active :: bool

record chat_message =
  cm_session :: nat
  cm_role :: string
  cm_message :: string
  cm_created_at :: timestamp

text \<open>
  The database as the chat handlers see it: the two tables in insertion order, the clock
  that \<open>auto_now\<close> and \<open>auto_now_add\<close> read, and the primary-key sequence of the
  session table. Every write that stamps a row reads the clock, and the clock has moved on
  by the next write.
\<close>

record chat_db =
  chat_sessions :: "chat_session list"
  chat_messages :: "chat_message list"
  clock :: timestamp
  next_pk :: nat

text \<open>
  \<open>ChatSession.objects.get(session_id=..., user=...)\<close>: the one matching row, and an
  exception when there is none or more than one.
\<close>

definition session_get :: "chat_db \<Rightarrow> string \<Rightarrow> user_id \<Rightarrow> exn + chat_session" where
  "session_get db sid u =
     (case filter (\<lambda>s. cs_session_id s = sid \<and> cs_user s = u) (chat_sessions db) of
        [] \<Rightarrow> Inl DoesNotExist
      | [s] \<Rightarrow> Inr s
      | _ # _ # _ \<Rightarrow> Inl MultipleObjectsReturned)"

text \<open>
  \<open>ChatSession.objects.create(user=..., session_id=...)\<close>: \<open>session_id\<close> is
  \<open>unique=True\<close>, so an identifier already in the table is refused by the database.
\<close>

definition session_create :: "chat_db \<Rightarrow> user_id \<Rightarrow> string \<Rightarrow> exn + (chat_session \<times> chat_db)" where
  "session_create db u sid =
     (if sid \<in> set (map cs_session_id (chat_sessions db)) then Inl IntegrityError
      else
        (let s = \<lparr>cs_pk = next_pk db, cs_user = u, cs_session_id = sid,
                  cs_created_at = clock db, cs_updated_at = clock db, cs_is_active = True\<rparr>
         in Inr (s, db\<lparr>chat_sessions := chat_sessions db @ [s],
                        clock := Suc (clock db), next_pk := Suc (next_pk db)\<rparr>)))"

text \<open>\<open>chat_session.save()\<close>: every column of the row is written, \<open>updated_at\<close> from the clock.\<close>

definition session_save :: "chat_db \<Rightarrow> chat_session \<Rightarrow> chat_db" where
  "session_save db s =
     db\<lparr>chat_sessions :=
          map (\<lambda>r. if cs_pk r = cs_pk s then s\<lparr>cs_updated_at := clock db\<rparr> else r)
            (chat_sessions db),
        clock := Suc (clock db)\<rparr>"

text \<open>\<open>ChatMessage.objects.create(session=..., role=..., message=...)\<close>.\<close>

definition message_create :: "chat_db \<Rightarrow> chat_session \<Rightarrow> string \<Rightarrow> string \<Rightarrow> chat_db" where
  "message_create db s r text =
     db\<lparr>chat_messages := chat_messages db @
          [\<lparr>cm_session = cs_pk s, cm_role = r, cm_message = text, cm_created_at = clock db\<rparr>],
        clock := Suc (clock db)\<rparr>"

text \<open>\<open>ChatMessage.objects.filter(session=chat_session).order_by('created_at')\<close>.\<close>

definition history_messages :: "chat_db \<Rightarrow> chat_session \<Rightarrow> chat_message list" where
  "history_messages db s =
     sort_key cm_created_at (filter (\<lambda>m. cm_session m = cs_pk s) (chat_messages db))"

subsection \<open>The external model\<close>

text \<open>
  A request to the generative model is what the client library sends: the chat's history so
  far, the new message and the generation settings. The model answers with a text or the
  call fails with a message. \<open>send_message\<close> is the library's chat object: on success both
  the message and the answer join the chat's history.
\<close>

type_synonym content = "string \<times> string"

record model_request =
  req_history :: "content list"
  req_message :: string
  req_config :: "(string \<times> string) list option"

type_synonym llm = "model_request \<Rightarrow> string + string"

definition send_message ::
  "llm \<Rightarrow> content list \<Rightarrow> string \<Rightarrow> (string \<times> string) list option \<Rightarrow> exn + (string \<times> content list)" where
  "send_message m hist text cfg =
     (case m \<lparr>req_history = hist, req_message = text, req_config = cfg\<rparr> of
        Inl err \<Rightarrow> Inl (ModelError err)
      | Inr reply \<Rightarrow> Inr (reply, hist @ [(''user'', text), (''model'', reply)]))"

text \<open>
  The system instruction is a fixed text of some sixty lines; no branch reads it, so only
  its opening sentence is written out.
\<close>

definition SYSTEM_INSTRUCTION :: string where
  "SYSTEM_INSTRUCTION = ''You are **AgriGuide AI**, an expert agricultural advisor''"

definition chat_generation_config :: "(string \<times> string) list" where
  "chat_generation_config = [(''temperature'', ''0.7''), (''top_p'', ''0.8''), (''top_k'', ''40'')]"

subsection \<open>Responses\<close>

record session_summary =
  sum_session_id :: string
  sum_created_at :: timestamp
  sum_updated_at :: timestamp
  sum_message_count :: nat
  sum_last_message :: "string option"

datatype body =
    ErrorBody string
  | MessageBody string
  | ChatBody string string
  | HistoryBody string "(string \<times> string \<times> timestamp) list"
  | SessionsBody "session_summary list"

type_synonym response = "nat \<times> body"

subsection \<open>chat_with_ai\<close>

text \<open>
  \<open>if session_id:\<close> is Python truthiness: an absent and an empty identifier both take the
  branch that creates a session. \<open>uuid\<close> is the value \<open>uuid.uuid4()\<close> draws.
\<close>

datatype resolved = Resolved chat_session string chat_db | NotFound | Raised exn chat_db

definition lookup_session :: "user_id \<Rightarrow> string \<Rightarrow> chat_db \<Rightarrow> resolved" where
  "lookup_session u sid db =
     (case session_get db sid u of
        Inr s \<Rightarrow> Resolved s sid db
      | Inl e \<Rightarrow> (if e = DoesNotExist then NotFound else Raised e db))"

definition new_session :: "string \<Rightarrow> user_id \<Rightarrow> chat_db \<Rightarrow> resolved" where
  "new_session uuid u db =
     (case session_create db u uuid of
        Inl e \<Rightarrow> Raised e db
      | Inr (s, db') \<Rightarrow> Resolved s uuid db')"

fun get_or_create_session :: "string \<Rightarrow> user_id \<Rightarrow> string option \<Rightarrow> chat_db \<Rightarrow> resolved" where
  "get_or_create_session uuid u None db = new_session uuid u db"
| "get_or_create_session uuid u (Some sid) db =
     (if sid = [] then new_session uuid u db else lookup_session u sid db)"

text \<open>
  The conversation contents the handler builds from the stored history and the new
  message. The handler builds the list and then starts the chat with \<open>history=[]\<close>:
  the list is passed to no call.
\<close>

definition build_contents :: "chat_message list \<Rightarrow> string \<Rightarrow> content list" where
  "build_contents history message =
     map (\<lambda>msg. (cm_role msg, cm_message msg)) history @ [(''user'', message)]"

text \<open>
  \<open>model.start_chat(history=[])\<close>, then the system instruction, then the message with the
  generation settings; the answer to the second call is the reply.
\<close>

definition generate_reply :: "llm \<Rightarrow> string \<Rightarrow> exn + string" where
  "generate_reply m message =
     (case send_message m [] SYSTEM_INSTRUCTION None of
        Inl e \<Rightarrow> Inl e
      | Inr (_, chat) \<Rightarrow>
          (case send_message m chat message (Some chat_generation_config) of
             Inl e \<Rightarrow> Inl e
           | Inr (ai_response, _) \<Rightarrow> Inr ai_response))"

text \<open>\<open>request.data.get('message', '').strip()\<close>: an absent message reads as the empty text.\<close>

definition request_message :: "string option \<Rightarrow> string" where
  "request_message msg = strip (case msg of None \<Rightarrow> [] | Some t \<Rightarrow> t)"

definition save_turn :: "chat_db \<Rightarrow> chat_session \<Rightarrow> string \<Rightarrow> string \<Rightarrow> chat_db" where
  "save_turn db s message ai_response =
     session_save
       (message_create (message_create db s ''user'' message) s ''model'' ai_response) s"

definition chat_with_ai ::
  "llm \<Rightarrow> string \<Rightarrow> user_id \<Rightarrow> string option \<Rightarrow> string option \<Rightarrow> chat_db \<Rightarrow> response \<times> chat_db" where
  "chat_with_ai m uuid u msg session_id db =
     (let message = request_message msg
      in if message = [] then ((400, ErrorBody ''Message is required''), db)
         else
           (case get_or_create_session uuid u session_id db of
              NotFound \<Rightarrow> ((404, ErrorBody ''Session not found or access denied''), db)
            | Raised e db1 \<Rightarrow> ((500, ErrorBody (exn_str e)), db1)
            | Resolved s sid db1 \<Rightarrow>
                (let contents = build_contents (history_messages db1 s) message
                 in case generate_reply m message of
                      Inl e \<Rightarrow> ((500, ErrorBody (exn_str e)), db1)
                    | Inr ai_response \<Rightarrow>
                        ((200, ChatBody ai_response sid), save_turn db1 s message ai_response))))"

subsection \<open>get_chat_sessions, get_chat_history, clear_chat_session\<close>

definition summarize :: "chat_db \<Rightarrow> chat_session \<Rightarrow> session_summary" where
  "summarize db s =
     (let msgs = history_messages db s
      in \<lparr>sum_session_id = cs_session_id s,
          sum_created_at = cs_created_at s,
          sum_updated_at = cs_updated_at s,
          sum_message_count = length msgs,
          sum_last_message = (if msgs = [] then None else Some (cm_message (last msgs)))\<rparr>)"

definition get_chat_sessions :: "user_id \<Rightarrow> chat_db \<Rightarrow> response" where
  "get_chat_sessions u db =
     (200, SessionsBody
        (map (summarize db)
           (rev (sort_key cs_updated_at
              (filter (\<lambda>s. cs_user s = u \<and> cs_is_active s) (chat_sessions db))))))"

definition history_entry :: "chat_message \<Rightarrow> string \<times> string \<times> timestamp" where
  "history_entry msg = (cm_role msg, cm_message msg, cm_created_at msg)"

text \<open>
  \<open>get_chat_history\<close> catches \<open>DoesNotExist\<close> only; any other exception leaves the
  handler.
\<close>

definition get_chat_history :: "user_id \<Rightarrow> string \<Rightarrow> chat_db \<Rightarrow> exn + response" where
  "get_chat_history u sid db =
     (case session_get db sid u of
        Inl e \<Rightarrow>
          (if e = DoesNotExist then Inr (404, ErrorBody ''Session not found or access denied'')
           else Inl e)
      | Inr s \<Rightarrow>
          Inr (200, HistoryBody sid
                 (map history_entry (history_messages db s))))"

fun clear_chat_session :: "user_id \<Rightarrow> string option \<Rightarrow> chat_db \<Rightarrow> response \<times> chat_db" where
  "clear_chat_session u None db = ((400, ErrorBody ''session_id is required''), db)"
| "clear_chat_session u (Some sid) db =
     (if sid = [] then ((400, ErrorBody ''session_id is required''), db)
      else
        (case session_get db sid u of
           Inl e \<Rightarrow>
             (if e = DoesNotExist
              then ((404, ErrorBody ''Session not found or access denied''), db)
              else ((500, ErrorBody (exn_str e)), db))
         | Inr s \<Rightarrow>
             ((200, MessageBody ''Session cleared''),
              session_save db (s\<lparr>cs_is_active := False\<rparr>))))"

text \<open>
  The state the handlers keep: primary keys are distinct and below the sequence, and the
  stored messages carry strictly increasing timestamps below the clock.
\<close>

definition chat_wf :: "chat_db \<Rightarrow> bool" where
  "chat_wf db =
     (distinct (map cs_pk (chat_sessions db)) \<and>
      distinct (map cs_session_id (chat_sessions db)) \<and>
      list_all (\<lambda>s. cs_pk s < next_pk db) (chat_sessions db) \<and>
      sorted_wrt (<) (map cm_created_at (chat_messages db)) \<and>
      list_all (\<lambda>m. cm_created_at m < clock db) (chat_messages db))"

subsection \<open>Vocabulary of the statements and example states\<close>

definition turn_rows :: "chat_session \<Rightarrow> string \<Rightarrow> string \<Rightarrow> timestamp \<Rightarrow> chat_message list" where
  "turn_rows s message reply t =
     [\<lparr>cm_session = cs_pk s, cm_role = ''user'', cm_message = message, cm_created_at = t\<rparr>,
      \<lparr>cm_session = cs_pk s, cm_role = ''model'', cm_message = reply, cm_created_at = Suc t\<rparr>]"

definition owns_session :: "chat_db \<Rightarrow> string \<Rightarrow> user_id \<Rightarrow> bool" where
  "owns_session db sid u = list_ex (\<lambda>s. cs_session_id s = sid \<and> cs_user s = u) (chat_sessions db)"

definition listed_sessions :: "user_id \<Rightarrow> chat_db \<Rightarrow> string list" where
  "listed_sessions u db =
     (case snd (get_chat_sessions u db) of SessionsBody l \<Rightarrow> map sum_session_id l | _ \<Rightarrow> [])"

definition demo_session :: chat_session where
  "demo_session = \<lparr>cs_pk = 1, cs_user = 2, cs_session_id = ''s1'',
                    cs_created_at = 3, cs_updated_at = 5, cs_is_active = False\<rparr>"

definition demo_db :: chat_db where
  "demo_db = \<lparr>chat_sessions = [demo_session],
      chat_messages =
        [\<lparr>cm_session = 1, cm_role = ''user'', cm_message = ''my maize has rust'', cm_created_at = 3\<rparr>,
         \<lparr>cm_session = 1, cm_role = ''model'', cm_message = ''remove the infected leaves'', cm_created_at = 4\<rparr>],
      clock = 10, next_pk = 2\<rparr>"

definition blank_db :: chat_db where
  "blank_db = \<lparr>chat_sessions = [], chat_messages = [], clock = 10, next_pk = 1\<rparr>"

definition model_ok :: llm where
  "model_ok r = Inr ''ok''"

definition model_down :: llm where
  "model_down r = Inl ''unavailable''"

definition model_counting :: llm where
  "model_counting r = Inr (replicate (length (req_history r)) CHR ''x'')"

section \<open>Daily tip: ai_tip_views.py\<close>

text \<open>
  Time is the server's local clock in seconds; a calendar date is the number of its day.
  The cache key \<open>farming_tip_<date>\<close> is one-to-one in the date, so the cache is keyed
  by the day. An entry holds its value and the instant it expires; the cache backend
  answers a read of an expired entry as a miss.
\<close>

type_synonym tip_cache = "int \<rightharpoonup> (string \<times> int)"

definition date_of :: "int \<Rightarrow> int" where
  "date_of now = now div 86400"

definition cache_get :: "tip_cache \<Rightarrow> int \<Rightarrow> int \<Rightarrow> string option" where
  "cache_get c now k =
     (case c k of
        None \<Rightarrow> None
      | Some (v, expires) \<Rightarrow> (if expires \<le> now then None else Some v))"

definition cache_set :: "tip_cache \<Rightarrow> int \<Rightarrow> int \<Rightarrow> string \<Rightarrow> int \<Rightarrow> tip_cache" where
  "cache_set c now k v timeout = c(k \<mapsto> (v, now + timeout))"

text \<open>The prompt is a fixed text; only its opening sentence is written out.\<close>

definition FARMING_TIP_PROMPT :: string where
  "FARMING_TIP_PROMPT = ''You are an expert agricultural advisor. Generate ONE practical, actionable farming tip.''"

definition tip_generation_config :: "(string \<times> string) list" where
  "tip_generation_config = [(''temperature'', ''0.8''), (''top_p'', ''0.9''), (''max_output_tokens'', ''150'')]"

definition DEFAULT_FALLBACK_TIPS :: "string list" where
  "DEFAULT_FALLBACK_TIPS =
     [''Water your plants early in the morning to reduce water loss through evaporation. This also helps prevent fungal diseases that thrive in moist conditions during cooler evening hours.'',
      ''Rotate your crops each season to prevent soil nutrient depletion and reduce pest buildup. For example, follow nitrogen-fixing legumes with heavy feeders like corn or tomatoes.'',
      ''Apply mulch around your plants to retain soil moisture, regulate temperature, and suppress weeds. Organic mulches also improve soil health as they decompose.'',
      ''Monitor your crops regularly for early signs of pests or diseases. Early detection allows for quicker intervention and prevents widespread damage to your harvest.'',
      ''Test your soil pH annually to ensure optimal nutrient availability. Most crops thrive in slightly acidic to neutral soil (pH 6.0-7.0).'']"

text \<open>
  \<open>random.choice(seq)\<close> returns \<open>seq[i]\<close> for an index \<open>i\<close> drawn below \<open>len(seq)\<close>;
  \<open>r\<close> is the draw of the random source.
\<close>

definition random_choice :: "nat \<Rightarrow> 'a list \<Rightarrow> 'a" where
  "random_choice r xs = xs ! (r mod length xs)"

record tip_response =
  rsp_tip :: string
  rsp_cached :: bool
  rsp_fallback :: "bool option"
  rsp_date :: int

text \<open>\<open>if cached_tip:\<close> is Python truthiness: a missing entry and an empty text are both a miss.\<close>

definition truthy_tip :: "string option \<Rightarrow> string option" where
  "truthy_tip v = (case v of None \<Rightarrow> None | Some t \<Rightarrow> (if t = [] then None else Some t))"

text \<open>
  The part of the \<open>try\<close> block after the cache miss: the key check, the model call and
  \<open>response.text.strip()\<close>. Each of them can raise.
\<close>

definition generate_tip :: "llm \<Rightarrow> string \<Rightarrow> exn + string" where
  "generate_tip m api_key =
     (if api_key = [] then Inl (ValueError ''GEMINI_API_KEY not configured'')
      else
        (case m \<lparr>req_history = [], req_message = FARMING_TIP_PROMPT,
                 req_config = Some tip_generation_config\<rparr> of
           Inl err \<Rightarrow> Inl (ModelError err)
         | Inr text \<Rightarrow> Inr (strip text)))"

text \<open>The \<open>try\<close> block: the cached tip of today, or a new tip stored for 48 hours.\<close>

definition fresh_tip :: "llm \<Rightarrow> string \<Rightarrow> int \<Rightarrow> tip_cache \<Rightarrow> exn + (tip_response \<times> tip_cache)" where
  "fresh_tip m api_key now c =
     (let today = date_of now
      in case truthy_tip (cache_get c now today) of
           Some cached_tip \<Rightarrow>
             Inr (\<lparr>rsp_tip = cached_tip, rsp_cached = True, rsp_fallback = None, rsp_date = today\<rparr>, c)
         | None \<Rightarrow>
             (case generate_tip m api_key of
                Inl e \<Rightarrow> Inl e
              | Inr t \<Rightarrow>
                  Inr (\<lparr>rsp_tip = t, rsp_cached = False, rsp_fallback = None, rsp_date = today\<rparr>,
                       cache_set c now today t (60 * 60 * 48))))"

text \<open>The \<open>except\<close> block: the tip of yesterday, or one of the default tips.\<close>

definition fallback_tip :: "nat \<Rightarrow> int \<Rightarrow> tip_cache \<Rightarrow> tip_response" where
  "fallback_tip r now c =
     (let yesterday = date_of (now - 86400)
      in case truthy_tip (cache_get c now yesterday) of
           Some yesterday_tip \<Rightarrow>
             \<lparr>rsp_tip = yesterday_tip, rsp_cached = True, rsp_fallback = Some True,
              rsp_date = yesterday\<rparr>
         | None \<Rightarrow>
             \<lparr>rsp_tip = random_choice r DEFAULT_FALLBACK_TIPS, rsp_cached = False,
              rsp_fallback = Some True, rsp_date = date_of now\<rparr>)"

definition get_daily_farming_tip ::
  "llm \<Rightarrow> string \<Rightarrow> nat \<Rightarrow> int \<Rightarrow> tip_cache \<Rightarrow> (nat \<times> tip_response) \<times> tip_cache" where
  "get_daily_farming_tip m api_key r now c =
     (case fresh_tip m api_key now c of
        Inr (resp, c') \<Rightarrow> ((200, resp), c')
      | Inl e \<Rightarrow> ((200, fallback_tip r now c), c))"

text \<open>
  What every entry written by the handler satisfies: an entry under day \<open>k\<close> was written
  on day \<open>k\<close> with a lifetime of 48 hours, so it outlives the following day.
\<close>

definition tip_cache_wf :: "tip_cache \<Rightarrow> bool" where
  "tip_cache_wf c = (\<forall>k v e. c k = Some (v, e) \<longrightarrow> (k + 2) * 86400 \<le> e)"

text \<open>A model whose answer is whitespace only.\<close>

definition model_blank :: llm where
  "model_blank r = Inr ''  ''"

section \<open>Handlers that let an exception escape\<close>

text \<open>
  A handler either returns a response or lets an exception escape; the server answers an
  escaped exception with 500.
\<close>

definition http_status :: "exn + (nat \<times> 'b) \<Rightarrow> nat" where
  "http_status r = (case r of Inl e \<Rightarrow> 500 | Inr (st, b) \<Rightarrow> st)"

section \<open>Community feed: community_views.py\<close>

subsection \<open>Tables (models.py: CommunityPost, PostLike, PostComment)\<close>

text \<open>
  The columns the handlers read: image, tags and timestamps of a post play no part in them.
  A post has no stored counter of likes or comments.
\<close>

record community_post =
  post_pk :: nat
  post_author :: user_id
  post_content :: string

record post_like =
  like_user :: user_id
  like_post :: nat

record post_comment =
  comment_pk :: nat
  comment_user :: user_id
  comment_post :: nat
  comment_content :: string

record feed_db =
  posts :: "community_post list"
  likes :: "post_like list"
  comments :: "post_comment list"

datatype feed_body =
    FeedError string
  | FeedMessage string
  | LikeBody string bool nat
  | PostBody community_post
  | NoContent

text \<open>\<open>CommunityPost.likes_count\<close> and \<open>comments_count\<close>: \<open>self.likes.count()\<close>, \<open>self.comments.count()\<close>.\<close>

definition likes_count :: "feed_db \<Rightarrow> community_post \<Rightarrow> nat" where
  "likes_count db p = length (filter (\<lambda>l. like_post l = post_pk p) (likes db))"

definition comments_count :: "feed_db \<Rightarrow> community_post \<Rightarrow> nat" where
  "comments_count db p = length (filter (\<lambda>c. comment_post c = post_pk p) (comments db))"

definition post_get :: "feed_db \<Rightarrow> nat \<Rightarrow> community_post option" where
  "post_get db pk = find (\<lambda>p. post_pk p = pk) (posts db)"

subsection \<open>toggle_post_like\<close>

text \<open>\<open>PostLike.objects.filter(user=..., post=...).exists()\<close>.\<close>

definition like_exists :: "feed_db \<Rightarrow> user_id \<Rightarrow> community_post \<Rightarrow> bool" where
  "like_exists db u p = list_ex (\<lambda>l. like_user l = u \<and> like_post l = post_pk p) (likes db)"

text \<open>\<open>PostLike.objects.filter(user=..., post=...).delete()\<close>.\<close>

definition like_delete :: "feed_db \<Rightarrow> user_id \<Rightarrow> community_post \<Rightarrow> feed_db" where
  "like_delete db u p =
     db\<lparr>likes := filter (\<lambda>l. \<not> (like_user l = u \<and> like_post l = post_pk p)) (likes db)\<rparr>"

text \<open>
  \<open>PostLike.objects.create(user=..., post=...)\<close>: \<open>unique_together = ['user', 'post']\<close>, so
  the database refuses a second row for the pair.
\<close>

definition like_create :: "feed_db \<Rightarrow> user_id \<Rightarrow> community_post \<Rightarrow> exn + feed_db" where
  "like_create db u p =
     (if like_exists db u p then Inl IntegrityError
      else Inr (db\<lparr>likes := likes db @ [\<lparr>like_user = u, like_post = post_pk p\<rparr>]\<rparr>))"

text \<open>
  The handler after its existence query: \<open>like_exists\<close> is the answer the query gave, the
  delete or the insert is a second statement on the database as it is by then.
\<close>

definition toggle_act ::
  "bool \<Rightarrow> user_id \<Rightarrow> community_post \<Rightarrow> feed_db \<Rightarrow> (exn + (nat \<times> feed_body)) \<times> feed_db" where
  "toggle_act exists u post db =
     (if exists then
        (let db' = like_delete db u post
         in (Inr (200, LikeBody ''Post unliked'' False (likes_count db' post)), db'))
      else
        (case like_create db u post of
           Inl e \<Rightarrow> (Inl e, db)
         | Inr db' \<Rightarrow> (Inr (200, LikeBody ''Post liked'' True (likes_count db' post)), db')))"

definition toggle_post_like ::
  "user_id \<Rightarrow> nat \<Rightarrow> feed_db \<Rightarrow> (exn + (nat \<times> feed_body)) \<times> feed_db" where
  "toggle_post_like u pk db =
     (case post_get db pk of
        None \<Rightarrow> (Inr (404, FeedError ''Post not found''), db)
      | Some post \<Rightarrow> toggle_act (like_exists db u post) u post db)"

subsection \<open>CommunityPostDetailView\<close>

text \<open>
  \<open>perform_update\<close> and \<open>perform_destroy\<close> raise Python's built-in \<open>PermissionError\<close>.
  Deleting a post cascades to its likes and comments.
\<close>

definition perform_update :: "user_id \<Rightarrow> community_post \<Rightarrow> string \<Rightarrow> feed_db \<Rightarrow> exn + (community_post \<times> feed_db)" where
  "perform_update u instance content db =
     (if post_author instance \<noteq> u then Inl (PermissionError ''You can only edit your own posts'')
      else
        (let saved = instance\<lparr>post_content := content\<rparr>
         in Inr (saved, db\<lparr>posts := map (\<lambda>p. if post_pk p = post_pk instance then saved else p) (posts db)\<rparr>)))"

definition perform_destroy :: "user_id \<Rightarrow> community_post \<Rightarrow> feed_db \<Rightarrow> exn + feed_db" where
  "perform_destroy u instance db =
     (if post_author instance \<noteq> u then Inl (PermissionError ''You can only delete your own posts'')
      else Inr (db\<lparr>posts := filter (\<lambda>p. post_pk p \<noteq> post_pk instance) (posts db),
                   likes := filter (\<lambda>l. like_post l \<noteq> post_pk instance) (likes db),
                   comments := filter (\<lambda>c. comment_post c \<noteq> post_pk instance) (comments db)\<rparr>))"

text \<open>
  The framework's \<open>update\<close> and \<open>destroy\<close>, which the view inherits unchanged: look the
  object up (404), for an update validate the data (400; the outcome of the serializer's field
  validation is the parameter \<open>data\<close>), call the hook, answer 200 or 204. The view catches
  nothing, and the framework's exception handler knows its own exception classes only, so a
  \<open>PermissionError\<close> raised by a hook escapes.
\<close>

definition post_update ::
  "user_id \<Rightarrow> nat \<Rightarrow> string + string \<Rightarrow> feed_db \<Rightarrow> (exn + (nat \<times> feed_body)) \<times> feed_db" where
  "post_update u pk data db =
     (case post_get db pk of
        None \<Rightarrow> (Inr (404, FeedError ''Not found.''), db)
      | Some instance \<Rightarrow>
          (case data of
             Inl errors \<Rightarrow> (Inr (400, FeedError errors), db)
           | Inr content \<Rightarrow>
               (case perform_update u instance content db of
                  Inl e \<Rightarrow> (Inl e, db)
                | Inr (saved, db') \<Rightarrow> (Inr (200, PostBody saved), db'))))"

definition post_destroy ::
  "user_id \<Rightarrow> nat \<Rightarrow> feed_db \<Rightarrow> (exn + (nat \<times> feed_body)) \<times> feed_db" where
  "post_destroy u pk db =
     (case post_get db pk of
        None \<Rightarrow> (Inr (404, FeedError ''Not found.''), db)
      | Some instance \<Rightarrow>
          (case perform_destroy u instance db of
             Inl e \<Rightarrow> (Inl e, db)
           | Inr db' \<Rightarrow> (Inr (204, NoContent), db')))"

subsection \<open>delete_comment\<close>

definition delete_comment ::
  "user_id \<Rightarrow> nat \<Rightarrow> nat \<Rightarrow> feed_db \<Rightarrow> (exn + (nat \<times> feed_body)) \<times> feed_db" where
  "delete_comment u pk comment_id db =
     (case find (\<lambda>c. comment_pk c = comment_id \<and> comment_post c = pk) (comments db) of
        None \<Rightarrow> (Inr (404, FeedError ''Comment not found''), db)
      | Some comment \<Rightarrow>
          (if comment_user comment \<noteq> u
           then (Inr (403, FeedError ''You can only delete your own comments''), db)
           else (Inr (204, FeedMessage ''Comment deleted successfully''),
                 db\<lparr>comments := filter (\<lambda>c. comment_pk c \<noteq> comment_pk comment) (comments db)\<rparr>)))"

text \<open>Each of the users in turn toggles their like of the post.\<close>

definition toggle_all :: "user_id list \<Rightarrow> nat \<Rightarrow> feed_db \<Rightarrow> feed_db" where
  "toggle_all us pk db = fold (\<lambda>u d. snd (toggle_post_like u pk d)) us db"

section \<open>Tutorial catalog: lms_views.py, serializers.py\<close>

record user =
  user_pk :: user_id
  user_username :: string
  user_type :: string

record tutorial_fields =
  tf_title :: string
  tf_description :: string
  tf_category :: string
  tf_video :: string
  tf_thumbnail :: "string option"

record tutorial =
  tut_pk :: nat
  tut_uploader :: user_id
  tut_fields :: tutorial_fields
  tut_view_count :: int

record tutorial_db =
  tutorials :: "tutorial list"
  tut_next_pk :: nat

datatype tutorial_body =
    TutorialError string
  | TutorialBody tutorial
  | ViewCountBody string int

text \<open>\<open>str.lower()\<close> on the letters A to Z.\<close>

definition lower_char :: "char \<Rightarrow> char" where
  "lower_char c =
     (let n = (of_char c :: nat) in if 65 \<le> n \<and> n \<le> 90 then char_of (n + 32) else c)"

definition lower :: "string \<Rightarrow> string" where
  "lower s = map lower_char s"

subsection \<open>TutorialSerializer.validate\<close>

definition serializer_validate :: "string \<Rightarrow> user \<Rightarrow> tutorial_fields \<Rightarrow> exn + tutorial_fields" where
  "serializer_validate method u attrs =
     (if method = ''POST'' \<and> user_type u \<noteq> ''extension_worker''
      then Inl (ValidationError ''Only extension workers can upload tutorials'')
      else Inr attrs)"

subsection \<open>TutorialListCreateView\<close>

definition tutorial_save :: "user \<Rightarrow> tutorial_fields \<Rightarrow> tutorial_db \<Rightarrow> tutorial \<times> tutorial_db" where
  "tutorial_save u attrs db =
     (let t = \<lparr>tut_pk = tut_next_pk db, tut_uploader = user_pk u, tut_fields = attrs, tut_view_count = 0\<rparr>
      in (t, db\<lparr>tutorials := tutorials db @ [t], tut_next_pk := Suc (tut_next_pk db)\<rparr>))"

definition perform_create :: "user \<Rightarrow> tutorial_fields \<Rightarrow> tutorial_db \<Rightarrow> exn + (tutorial \<times> tutorial_db)" where
  "perform_create u attrs db =
     (let user_type' = lower (strip (user_type u))
      in if user_type' \<noteq> ''extension_worker''
         then Inl (PermissionError
                (''Only extension workers can upload tutorials. Your user type is: '' @ user_type u))
         else Inr (tutorial_save u attrs db))"

text \<open>
  The framework's \<open>create\<close>: \<open>serializer.is_valid(raise_exception=True)\<close>, then the hook,
  then 201. \<open>is_valid\<close> runs the field validation, whose outcome is the parameter
  \<open>data\<close>, and then \<open>validate\<close>.
\<close>

definition mixin_create ::
  "user \<Rightarrow> string + tutorial_fields \<Rightarrow> tutorial_db \<Rightarrow> (exn + (nat \<times> tutorial_body)) \<times> tutorial_db" where
  "mixin_create u data db =
     (case data of
        Inl errors \<Rightarrow> (Inl (ValidationError errors), db)
      | Inr attrs0 \<Rightarrow>
          (case serializer_validate ''POST'' u attrs0 of
             Inl e \<Rightarrow> (Inl e, db)
           | Inr attrs \<Rightarrow>
               (case perform_create u attrs db of
                  Inl e \<Rightarrow> (Inl e, db)
                | Inr (t, db') \<Rightarrow> (Inr (201, TutorialBody t), db'))))"

text \<open>The view's \<open>create\<close>: \<open>PermissionError\<close> becomes 403, anything else passes.\<close>

definition tutorial_create ::
  "user \<Rightarrow> string + tutorial_fields \<Rightarrow> tutorial_db \<Rightarrow> (exn + (nat \<times> tutorial_body)) \<times> tutorial_db" where
  "tutorial_create u data db =
     (case mixin_create u data db of
        (Inl (PermissionError msg), db') \<Rightarrow> (Inr (403, TutorialError msg), db')
      | r \<Rightarrow> r)"

text \<open>
  The framework's exception handler around every view: a \<open>ValidationError\<close> is answered
  with 400.
\<close>

definition handle_exception :: "(exn + (nat \<times> tutorial_body)) \<Rightarrow> (exn + (nat \<times> tutorial_body))" where
  "handle_exception r =
     (case r of
        Inl (ValidationError errors) \<Rightarrow> Inr (400, TutorialError errors)
      | other \<Rightarrow> other)"

definition tutorial_post ::
  "user \<Rightarrow> string + tutorial_fields \<Rightarrow> tutorial_db \<Rightarrow> (exn + (nat \<times> tutorial_body)) \<times> tutorial_db" where
  "tutorial_post u data db =
     (let (r, db') = tutorial_create u data db in (handle_exception r, db'))"

subsection \<open>Tutorial.increment_view_count and increment_views\<close>

definition tutorial_get :: "tutorial_db \<Rightarrow> nat \<Rightarrow> tutorial option" where
  "tutorial_get db pk = find (\<lambda>t. tut_pk t = pk) (tutorials db)"

text \<open>\<open>self.save(update_fields=['view_count'])\<close>: the column of the row is overwritten with the instance's value.\<close>

definition save_view_count :: "tutorial \<Rightarrow> tutorial_db \<Rightarrow> tutorial_db" where
  "save_view_count inst db =
     db\<lparr>tutorials :=
          map (\<lambda>t. if tut_pk t = tut_pk inst then t\<lparr>tut_view_count := tut_view_count inst\<rparr> else t)
            (tutorials db)\<rparr>"

definition increment_view_count :: "tutorial \<Rightarrow> tutorial_db \<Rightarrow> tutorial \<times> tutorial_db" where
  "increment_view_count inst db =
     (let inst' = inst\<lparr>tut_view_count := tut_view_count inst + 1\<rparr>
      in (inst', save_view_count inst' db))"

definition increment_views :: "nat \<Rightarrow> tutorial_db \<Rightarrow> (nat \<times> tutorial_body) \<times> tutorial_db" where
  "increment_views pk db =
     (case tutorial_get db pk of
        None \<Rightarrow> ((404, TutorialError ''Tutorial not found''), db)
      | Some t \<Rightarrow>
          (let (t', db') = increment_view_count t db
           in ((200, ViewCountBody ''View count incremented'' (tut_view_count t')), db')))"

definition view_count_of :: "tutorial_db \<Rightarrow> nat \<Rightarrow> int option" where
  "view_count_of db pk = map_option tut_view_count (tutorial_get db pk)"

section \<open>Example states of the feed and of the catalog\<close>

definition demo_post :: community_post where
  "demo_post = \<lparr>post_pk = 1, post_author = 1, post_content = ''Rains came early this year''\<rparr>"

definition demo_feed :: feed_db where
  "demo_feed = \<lparr>posts = [demo_post], likes = [],
                 comments = [\<lparr>comment_pk = 1, comment_user = 1, comment_post = 1, comment_content = ''Same here''\<rparr>]\<rparr>"

definition demo_farmer :: user where
  "demo_farmer = \<lparr>user_pk = 2, user_username = ''ama'', user_type = ''farmer''\<rparr>"

definition demo_fields :: tutorial_fields where
  "demo_fields = \<lparr>tf_title = ''Drip irrigation'', tf_description = ''Laying the lines'',
                   tf_category = ''irrigation'', tf_video = ''drip.mp4'', tf_thumbnail = None\<rparr>"

definition demo_tutorial :: tutorial where
  "demo_tutorial = \<lparr>tut_pk = 1, tut_uploader = 3, tut_fields = demo_fields, tut_view_count = 0\<rparr>"

definition demo_tutorials :: tutorial_db where
  "demo_tutorials = \<lparr>tutorials = [demo_tutorial], tut_next_pk = 2\<rparr>"

section \<open>Properties of the chat session manager\<close>

lemma session_get_Inr_filter:
  "session_get db sid u = Inr s \<longleftrightarrow>
     filter (\<lambda>r. cs_session_id r = sid \<and> cs_user r = u) (chat_sessions db) = [s]"
  by (auto simp: session_get_def split: list.splits)

lemma session_get_props:
  assumes "session_get db sid u = Inr s"
  shows "s \<in> set (chat_sessions db)" "cs_session_id s = sid" "cs_user s = u"
proof -
  have "s \<in> set (filter (\<lambda>r. cs_session_id r = sid \<and> cs_user r = u) (chat_sessions db))"
    using assms by (simp add: session_get_Inr_filter)
  then show "s \<in> set (chat_sessions db)" "cs_session_id s = sid" "cs_user s = u" by auto
qed

lemma save_turn_messages:
  "chat_messages (save_turn db s message reply) = chat_messages db @ turn_rows s message reply (clock db)"
  by (simp add: save_turn_def session_save_def message_create_def turn_rows_def)

lemma save_turn_sessions:
  "chat_sessions (save_turn db s message reply) =
     map (\<lambda>r. if cs_pk r = cs_pk s then s\<lparr>cs_updated_at := Suc (Suc (clock db))\<rparr> else r) (chat_sessions db)"
  by (simp add: save_turn_def session_save_def message_create_def)

lemma filter_update_row:
  assumes "filter P xs = [s]" "distinct (map cs_pk xs)" "P s'" "cs_pk s' = cs_pk s"
  shows "filter P (map (\<lambda>r. if cs_pk r = cs_pk s then s' else r) xs) = [s']"
proof -
  have "s \<in> set (filter P xs)"
    using assms(1) by simp
  then have sin: "s \<in> set xs" "P s"
    by simp_all
  have eq: "\<And>r. r \<in> set xs \<Longrightarrow> (cs_pk r = cs_pk s) = (r = s)"
    using assms(2) sin(1) by (auto simp: distinct_map inj_on_def)
  have "filter P (map (\<lambda>r. if cs_pk r = cs_pk s then s' else r) xs)
      = map (\<lambda>r. if cs_pk r = cs_pk s then s' else r) (filter (P \<circ> (\<lambda>r. if cs_pk r = cs_pk s then s' else r)) xs)"
    by (simp add: filter_map)
  also have "filter (P \<circ> (\<lambda>r. if cs_pk r = cs_pk s then s' else r)) xs = filter P xs"
    by (rule filter_cong) (auto simp: eq sin assms(3))
  finally show ?thesis using assms(1) by simp
qed

lemma session_get_after_save:
  assumes "session_get db sid u = Inr s" "distinct (map cs_pk (chat_sessions db))"
  shows "session_get (session_save db (s\<lparr>cs_is_active := a\<rparr>)) sid u
           = Inr (s\<lparr>cs_is_active := a, cs_updated_at := clock db\<rparr>)"
  using session_get_props[OF assms(1)] assms
  by (simp add: session_get_Inr_filter session_save_def filter_update_row)

lemma session_get_after_turn:
  assumes "session_get db sid u = Inr s" "distinct (map cs_pk (chat_sessions db))"
  shows "session_get (save_turn db s message reply) sid u
           = Inr (s\<lparr>cs_updated_at := Suc (Suc (clock db))\<rparr>)"
  using session_get_props[OF assms(1)] assms
  by (simp add: session_get_Inr_filter save_turn_sessions filter_update_row)

lemma history_sorted:
  assumes "sorted_wrt (<) (map cm_created_at (chat_messages db))"
  shows "history_messages db s = filter (\<lambda>m. cm_session m = cs_pk s) (chat_messages db)"
proof -
  have "sorted_wrt (<) (map cm_created_at (filter (\<lambda>m. cm_session m = cs_pk s) (chat_messages db)))"
    using assms by (simp add: sorted_wrt_map sorted_wrt_filter)
  then show ?thesis
    unfolding history_messages_def
    by (intro sort_key_id_if_sorted strict_sorted_imp_sorted)
qed

lemma turn_keeps_order:
  assumes "sorted_wrt (<) (map cm_created_at (chat_messages db))"
    and "list_all (\<lambda>m. cm_created_at m < clock db) (chat_messages db)"
  shows "sorted_wrt (<) (map cm_created_at (chat_messages db @ turn_rows s message reply (clock db)))"
  using assms by (auto simp: sorted_wrt_append turn_rows_def list_all_iff)

lemma history_after_turn:
  assumes "sorted_wrt (<) (map cm_created_at (chat_messages db))"
    and "list_all (\<lambda>m. cm_created_at m < clock db) (chat_messages db)"
    and "cs_pk s' = cs_pk s"
  shows "history_messages (save_turn db s message reply) s'
           = history_messages db s @ turn_rows s message reply (clock db)"
proof -
  have "sorted_wrt (<) (map cm_created_at (chat_messages (save_turn db s message reply)))"
    using turn_keeps_order[OF assms(1,2)] by (simp add: save_turn_messages)
  then have "history_messages (save_turn db s message reply) s'
      = filter (\<lambda>m. cm_session m = cs_pk s') (chat_messages (save_turn db s message reply))"
    by (rule history_sorted)
  also have "\<dots> = filter (\<lambda>m. cm_session m = cs_pk s) (chat_messages db) @ turn_rows s message reply (clock db)"
    by (simp add: save_turn_messages assms(3) turn_rows_def)
  finally show ?thesis by (simp add: history_sorted[OF assms(1)])
qed

lemma resolved_lookup:
  "lookup_session u sid db = Resolved s sid' db1 \<Longrightarrow> sid' = sid \<and> db1 = db \<and> session_get db sid u = Inr s"
  by (auto simp: lookup_session_def split: sum.splits if_splits)

lemma resolved_new:
  assumes "new_session uuid u db = Resolved s sid db1"
  shows "sid = uuid" "chat_messages db1 = chat_messages db" "clock db1 = Suc (clock db)"
    "chat_sessions db1 = chat_sessions db @ [s]" "cs_pk s = next_pk db" "next_pk db1 = Suc (next_pk db)"
    "uuid \<notin> set (map cs_session_id (chat_sessions db))" "cs_session_id s = uuid" "cs_user s = u"
  using assms by (auto simp: new_session_def session_create_def Let_def split: if_splits)

lemma resolved_new_get:
  assumes "new_session uuid u db = Resolved s sid db1"
  shows "session_get db1 sid u = Inr s"
proof -
  have "filter (\<lambda>r. cs_session_id r = uuid \<and> cs_user r = u) (chat_sessions db) = []"
    using resolved_new(7)[OF assms] by (auto simp: filter_empty_conv)
  then show ?thesis
    using resolved_new[OF assms] by (simp add: session_get_Inr_filter)
qed

lemma resolved_new_wf:
  assumes "new_session uuid u db = Resolved s sid db1" "chat_wf db"
  shows "chat_wf db1"
  using resolved_new[OF assms(1)] assms(2)
  by (auto simp: chat_wf_def list_all_iff)

lemma resolved_cases:
  assumes "get_or_create_session uuid u session_id db = Resolved s sid db1"
  shows "new_session uuid u db = Resolved s sid db1 \<or> (\<exists>x. lookup_session u x db = Resolved s sid db1)"
  using assms by (cases session_id) (auto split: if_splits)

lemma resolved_facts:
  assumes "get_or_create_session uuid u session_id db = Resolved s sid db1" "chat_wf db"
  shows "chat_wf db1" "session_get db1 sid u = Inr s" "chat_messages db1 = chat_messages db"
  using resolved_cases[OF assms(1)] assms(2)
  by (auto dest: resolved_lookup resolved_new_wf resolved_new_get resolved_new(2))

lemma get_chat_history_found:
  "session_get db sid u = Inr s \<Longrightarrow>
   get_chat_history u sid db = Inr (200, HistoryBody sid (map history_entry (history_messages db s)))"
  by (simp add: get_chat_history_def history_entry_def)

lemma chat_with_ai_resolved:
  assumes "request_message msg \<noteq> []"
    and "get_or_create_session uuid u session_id db = Resolved s sid db1"
  shows "chat_with_ai m uuid u msg session_id db =
     (case generate_reply m (request_message msg) of
        Inl e \<Rightarrow> ((500, ErrorBody (exn_str e)), db1)
      | Inr reply \<Rightarrow> ((200, ChatBody reply sid), save_turn db1 s (request_message msg) reply))"
  using assms by (simp add: chat_with_ai_def Let_def)

lemma chat_turn_effects:
  assumes wf: "chat_wf db"
    and nonempty: "request_message msg \<noteq> []"
    and res: "get_or_create_session uuid u session_id db = Resolved s sid db1"
  shows "(\<forall>reply. generate_reply m (request_message msg) = Inr reply \<longrightarrow>
            fst (chat_with_ai m uuid u msg session_id db) = (200, ChatBody reply sid)
          \<and> chat_messages (snd (chat_with_ai m uuid u msg session_id db))
              = chat_messages db @ turn_rows s (request_message msg) reply (clock db1)
          \<and> session_get (snd (chat_with_ai m uuid u msg session_id db)) sid u
              = Inr (s\<lparr>cs_updated_at := Suc (Suc (clock db1))\<rparr>)
          \<and> get_chat_history u sid (snd (chat_with_ai m uuid u msg session_id db))
              = Inr (200, HistoryBody sid
                  (map history_entry
                     (history_messages db s @ turn_rows s (request_message msg) reply (clock db1)))))
       \<and> (\<forall>e. generate_reply m (request_message msg) = Inl e \<longrightarrow>
            fst (chat_with_ai m uuid u msg session_id db) = (500, ErrorBody (exn_str e))
          \<and> chat_messages (snd (chat_with_ai m uuid u msg session_id db)) = chat_messages db)"
proof (intro conjI allI impI)
  note facts = resolved_facts[OF res wf]
  have wf1: "sorted_wrt (<) (map cm_created_at (chat_messages db1))"
    "list_all (\<lambda>m. cm_created_at m < clock db1) (chat_messages db1)"
    "distinct (map cs_pk (chat_sessions db1))"
    using facts(1) by (simp_all add: chat_wf_def)
  have same: "history_messages db1 s = history_messages db s"
    by (simp add: history_messages_def facts(3))
  {
    fix reply
    assume ok: "generate_reply m (request_message msg) = Inr reply"
    let ?r = "chat_with_ai m uuid u msg session_id db"
    have run: "?r = ((200, ChatBody reply sid), save_turn db1 s (request_message msg) reply)"
      using chat_with_ai_resolved[OF nonempty res, of m] ok by simp
    show "fst ?r = (200, ChatBody reply sid)"
      by (simp add: run)
    show "chat_messages (snd ?r) = chat_messages db @ turn_rows s (request_message msg) reply (clock db1)"
      by (simp add: run save_turn_messages facts(3))
    have got: "session_get (snd ?r) sid u = Inr (s\<lparr>cs_updated_at := Suc (Suc (clock db1))\<rparr>)"
      using session_get_after_turn[OF facts(2) wf1(3)] by (simp add: run)
    show "session_get (snd ?r) sid u = Inr (s\<lparr>cs_updated_at := Suc (Suc (clock db1))\<rparr>)"
      by (rule got)
    have "history_messages (snd ?r) (s\<lparr>cs_updated_at := Suc (Suc (clock db1))\<rparr>)
        = history_messages db s @ turn_rows s (request_message msg) reply (clock db1)"
      using history_after_turn[OF wf1(1,2), of "s\<lparr>cs_updated_at := Suc (Suc (clock db1))\<rparr>" s]
      by (simp add: run same)
    then show "get_chat_history u sid (snd ?r)
        = Inr (200, HistoryBody sid
            (map history_entry
               (history_messages db s @ turn_rows s (request_message msg) reply (clock db1))))"
      using get_chat_history_found[OF got] by simp
  }
  {
    fix e
    assume bad: "generate_reply m (request_message msg) = Inl e"
    let ?r = "chat_with_ai m uuid u msg session_id db"
    have run: "?r = ((500, ErrorBody (exn_str e)), db1)"
      using chat_with_ai_resolved[OF nonempty res, of m] bad by simp
    show "fst ?r = (500, ErrorBody (exn_str e))"
      by (simp add: run)
    show "chat_messages (snd ?r) = chat_messages db"
      by (simp add: run facts(3))
  }
qed

text \<open>
  Claim C2. A chat turn that reaches the model call, on a session that was found or newly
  created for a non-empty message: when the call succeeds, the response is 200 with the
  reply, exactly two rows are appended to the message table (the \<open>user\<close> row with the
  message as read from the request, then the \<open>model\<close> row with the reply), the session
  row is written back with \<open>updated_at\<close> from the clock, and \<open>get_chat_history\<close>
  returns the earlier transcript followed by the two new entries in that order. When the
  call fails, the response is 500 with the error text and the message table is unchanged.
\<close>

theorem chat_turn_appends_two_or_none:
  assumes wf: "chat_wf db"
    and nonempty: "request_message msg \<noteq> []"
    and res: "get_or_create_session uuid u session_id db = Resolved s sid db1"
  shows "(\<forall>reply. generate_reply m (request_message msg) = Inr reply \<longrightarrow>
            fst (chat_with_ai m uuid u msg session_id db) = (200, ChatBody reply sid)
          \<and> chat_messages (snd (chat_with_ai m uuid u msg session_id db))
              = chat_messages db @ turn_rows s (request_message msg) reply (clock db1)
          \<and> session_get (snd (chat_with_ai m uuid u msg session_id db)) sid u
              = Inr (s\<lparr>cs_updated_at := Suc (Suc (clock db1))\<rparr>)
          \<and> get_chat_history u sid (snd (chat_with_ai m uuid u msg session_id db))
              = Inr (200, HistoryBody sid
                  (map history_entry
                     (history_messages db s @ turn_rows s (request_message msg) reply (clock db1)))))
       \<and> (\<forall>e. generate_reply m (request_message msg) = Inl e \<longrightarrow>
            fst (chat_with_ai m uuid u msg session_id db) = (500, ErrorBody (exn_str e))
          \<and> chat_messages (snd (chat_with_ai m uuid u msg session_id db)) = chat_messages db)"
  using chat_turn_effects[OF assms] .

lemma session_get_not_owned:
  "\<not> owns_session db sid u \<Longrightarrow> session_get db sid u = Inl DoesNotExist"
  by (simp add: owns_session_def session_get_def list_ex_iff filter_empty_conv[THEN iffD2])

lemma session_get_found_owned:
  "session_get db sid u = Inr s \<Longrightarrow> owns_session db sid u"
  using session_get_not_owned[of db sid u] by auto

lemma chat_not_owned:
  assumes "sid \<noteq> []" "\<not> owns_session db sid u"
  shows "chat_with_ai m uuid u msg (Some sid) db =
     ((if request_message msg = [] then (400, ErrorBody ''Message is required'')
       else (404, ErrorBody ''Session not found or access denied'')), db)"
  using assms by (simp add: chat_with_ai_def lookup_session_def session_get_not_owned Let_def)

lemma history_not_owned:
  "\<not> owns_session db sid u \<Longrightarrow> get_chat_history u sid db = Inr (404, ErrorBody ''Session not found or access denied'')"
  by (simp add: get_chat_history_def session_get_not_owned)

text \<open>
  Claim C8. For a request carrying a non-empty session identifier: when the caller owns no
  session with that identifier, whether no such session exists or it belongs to another
  user, \<open>chat_with_ai\<close> answers the same in both states and leaves the database as it
  was, the answer being 404 \<open>Session not found or access denied\<close> once the message is
  not empty, and \<open>get_chat_history\<close> answers the same 404. A 200 from either handler
  implies that the caller owns a session with that identifier.
\<close>

theorem session_lookup_failure_uniform:
  assumes "sid \<noteq> []"
  shows "(\<not> owns_session db sid u \<and> \<not> owns_session db' sid u \<longrightarrow>
            fst (chat_with_ai m uuid u msg (Some sid) db) = fst (chat_with_ai m uuid u msg (Some sid) db')
          \<and> snd (chat_with_ai m uuid u msg (Some sid) db) = db
          \<and> (request_message msg \<noteq> [] \<longrightarrow>
               fst (chat_with_ai m uuid u msg (Some sid) db) = (404, ErrorBody ''Session not found or access denied''))
          \<and> get_chat_history u sid db = Inr (404, ErrorBody ''Session not found or access denied'')
          \<and> get_chat_history u sid db' = get_chat_history u sid db)
       \<and> (fst (fst (chat_with_ai m uuid u msg (Some sid) db)) = 200 \<longrightarrow> owns_session db sid u)
       \<and> ((\<exists>b. get_chat_history u sid db = Inr (200, b)) \<longrightarrow> owns_session db sid u)"
proof (intro conjI impI)
  assume a: "\<not> owns_session db sid u \<and> \<not> owns_session db' sid u"
  show "fst (chat_with_ai m uuid u msg (Some sid) db) = fst (chat_with_ai m uuid u msg (Some sid) db')"
    using a assms by (simp add: chat_not_owned)
  show "snd (chat_with_ai m uuid u msg (Some sid) db) = db"
    using a assms by (simp add: chat_not_owned)
  show "get_chat_history u sid db = Inr (404, ErrorBody ''Session not found or access denied'')"
    using a by (simp add: history_not_owned)
  show "get_chat_history u sid db' = get_chat_history u sid db"
    using a by (simp add: history_not_owned)
  assume "request_message msg \<noteq> []"
  then show "fst (chat_with_ai m uuid u msg (Some sid) db) = (404, ErrorBody ''Session not found or access denied'')"
    using a assms by (simp add: chat_not_owned)
next
  assume "fst (fst (chat_with_ai m uuid u msg (Some sid) db)) = 200"
  then show "owns_session db sid u"
    using chat_not_owned[OF assms, of db u m uuid msg]
    by (cases "owns_session db sid u") (simp_all split: if_splits)
next
  assume "\<exists>b. get_chat_history u sid db = Inr (200, b)"
  then show "owns_session db sid u"
    using history_not_owned[of db sid u] by (cases "owns_session db sid u") auto
qed

lemma listed_sessions_set:
  "set (listed_sessions u db) = cs_session_id ` {s \<in> set (chat_sessions db). cs_user s = u \<and> cs_is_active s}"
  by (auto simp: listed_sessions_def get_chat_sessions_def summarize_def Let_def)

lemma inactive_not_listed:
  assumes "session_get db sid u = Inr s" "\<not> cs_is_active s"
  shows "sid \<notin> set (listed_sessions u db)"
proof
  assume "sid \<in> set (listed_sessions u db)"
  then obtain r where r: "r \<in> set (chat_sessions db)" "cs_user r = u" "cs_is_active r" "cs_session_id r = sid"
    by (auto simp: listed_sessions_set)
  have f: "filter (\<lambda>r. cs_session_id r = sid \<and> cs_user r = u) (chat_sessions db) = [s]"
    using assms(1) by (simp add: session_get_Inr_filter)
  have "r \<in> set (filter (\<lambda>r. cs_session_id r = sid \<and> cs_user r = u) (chat_sessions db))"
    using r by simp
  then have "r \<in> set [s]"
    by (simp only: f)
  then have "r = s"
    by simp
  then show False using r(3) assms(2) by simp
qed

lemma clear_found:
  assumes "sid \<noteq> []" "session_get db sid u = Inr s"
  shows "clear_chat_session u (Some sid) db
           = ((200, MessageBody ''Session cleared''), session_save db (s\<lparr>cs_is_active := False\<rparr>))"
  using assms by simp

lemma session_save_wf:
  assumes "chat_wf db" "s \<in> set (chat_sessions db)" "cs_session_id s' = cs_session_id s" "cs_pk s' = cs_pk s"
  shows "chat_wf (session_save db s')"
proof -
  let ?f = "\<lambda>r. if cs_pk r = cs_pk s' then s'\<lparr>cs_updated_at := clock db\<rparr> else r"
  have d: "distinct (map cs_pk (chat_sessions db))"
    using assms(1) by (simp add: chat_wf_def)
  have eq: "\<And>r. r \<in> set (chat_sessions db) \<Longrightarrow> (cs_pk r = cs_pk s') = (r = s)"
    using d assms(2,4) by (auto simp: distinct_map inj_on_def)
  have pk: "map (cs_pk \<circ> ?f) (chat_sessions db) = map cs_pk (chat_sessions db)"
    by simp
  have sid: "map (cs_session_id \<circ> ?f) (chat_sessions db) = map cs_session_id (chat_sessions db)"
    using eq assms(3) by auto
  have "list_all (\<lambda>s. cs_pk s < next_pk db) (map ?f (chat_sessions db))"
    using assms(1) by (auto simp: chat_wf_def list_all_iff)
  moreover have "list_all (\<lambda>m. cm_created_at m < Suc (clock db)) (chat_messages db)"
    using assms(1) by (auto simp: chat_wf_def list_all_iff)
  ultimately show ?thesis
    using assms(1) unfolding chat_wf_def session_save_def by (simp add: pk sid)
qed

text \<open>
  Claim C10. For a session the caller owns: when its \<open>is_active\<close> flag is off, it is
  absent from the caller's session list, \<open>get_chat_history\<close> still returns its
  transcript, and a chat turn on it still succeeds, appends the two rows and leaves it
  unlisted; and \<open>clear_chat_session\<close> produces exactly such a state, switching the flag
  off and leaving the message table unchanged.
\<close>

theorem inactive_session_still_usable:
  assumes wf: "chat_wf db"
    and found: "session_get db sid u = Inr s"
    and sid: "sid \<noteq> []"
    and nonempty: "request_message msg \<noteq> []"
    and ok: "generate_reply m (request_message msg) = Inr reply"
  shows "(\<not> cs_is_active s \<longrightarrow>
            sid \<notin> set (listed_sessions u db)
          \<and> get_chat_history u sid db
              = Inr (200, HistoryBody sid (map history_entry (history_messages db s)))
          \<and> fst (chat_with_ai m uuid u msg (Some sid) db) = (200, ChatBody reply sid)
          \<and> chat_messages (snd (chat_with_ai m uuid u msg (Some sid) db))
              = chat_messages db @ turn_rows s (request_message msg) reply (clock db)
          \<and> sid \<notin> set (listed_sessions u (snd (chat_with_ai m uuid u msg (Some sid) db))))
       \<and> fst (clear_chat_session u (Some sid) db) = (200, MessageBody ''Session cleared'')
       \<and> chat_wf (snd (clear_chat_session u (Some sid) db))
       \<and> chat_messages (snd (clear_chat_session u (Some sid) db)) = chat_messages db
       \<and> session_get (snd (clear_chat_session u (Some sid) db)) sid u
           = Inr (s\<lparr>cs_is_active := False, cs_updated_at := clock db\<rparr>)"
proof (intro conjI impI)
  have res: "get_or_create_session uuid u (Some sid) db = Resolved s sid db"
    using sid found by (simp add: lookup_session_def)
  note turn = chat_turn_effects[OF wf nonempty res, of m]
  assume off: "\<not> cs_is_active s"
  show "sid \<notin> set (listed_sessions u db)"
    using inactive_not_listed[OF found off] .
  show "get_chat_history u sid db = Inr (200, HistoryBody sid (map history_entry (history_messages db s)))"
    using get_chat_history_found[OF found] .
  show "fst (chat_with_ai m uuid u msg (Some sid) db) = (200, ChatBody reply sid)"
    using turn ok by simp
  show "chat_messages (snd (chat_with_ai m uuid u msg (Some sid) db))
          = chat_messages db @ turn_rows s (request_message msg) reply (clock db)"
    using turn ok by simp
  have "session_get (snd (chat_with_ai m uuid u msg (Some sid) db)) sid u
          = Inr (s\<lparr>cs_updated_at := Suc (Suc (clock db))\<rparr>)"
    using turn ok by simp
  then show "sid \<notin> set (listed_sessions u (snd (chat_with_ai m uuid u msg (Some sid) db)))"
    by (rule inactive_not_listed) (simp add: off)
next
  note cl = clear_found[OF sid found]
  have d: "distinct (map cs_pk (chat_sessions db))"
    using wf by (simp add: chat_wf_def)
  show "fst (clear_chat_session u (Some sid) db) = (200, MessageBody ''Session cleared'')"
    unfolding cl by simp
  show "chat_wf (snd (clear_chat_session u (Some sid) db))"
    using session_save_wf[OF wf session_get_props(1)[OF found], of "s\<lparr>cs_is_active := False\<rparr>"]
    unfolding cl by simp
  show "chat_messages (snd (clear_chat_session u (Some sid) db)) = chat_messages db"
    unfolding cl by (simp add: session_save_def)
  show "session_get (snd (clear_chat_session u (Some sid) db)) sid u
           = Inr (s\<lparr>cs_is_active := False, cs_updated_at := clock db\<rparr>)"
    using session_get_after_save[OF found d, of False] unfolding cl by simp
qed

text \<open>The empty database is well-formed, and a chat turn keeps the database so.\<close>

lemma blank_wf: "chat_wf blank_db"
  by (simp add: chat_wf_def blank_db_def)

lemma message_create_wf:
  assumes "chat_wf db"
  shows "chat_wf (message_create db s r t)"
  using assms
  by (auto simp: chat_wf_def message_create_def sorted_wrt_append list_all_iff)

lemma save_turn_wf:
  assumes "chat_wf db" "s \<in> set (chat_sessions db)"
  shows "chat_wf (save_turn db s message reply)"
proof -
  let ?db2 = "message_create (message_create db s ''user'' message) s ''model'' reply"
  have wf2: "chat_wf ?db2"
    using assms(1) by (intro message_create_wf)
  have "s \<in> set (chat_sessions ?db2)"
    using assms(2) by (simp add: message_create_def)
  then show ?thesis
    unfolding save_turn_def using session_save_wf[OF wf2, of s s] by simp
qed

lemma resolved_unchanged_on_failure:
  "get_or_create_session uuid u session_id db = Raised e db1 \<Longrightarrow> db1 = db"
  by (cases session_id)
     (auto simp: new_session_def lookup_session_def split: sum.splits if_splits prod.splits)

lemma chat_with_ai_keeps_wf:
  assumes wf: "chat_wf db"
  shows "chat_wf (snd (chat_with_ai m uuid u msg session_id db))"
proof (cases "request_message msg = []")
  case True
  then show ?thesis using wf by (simp add: chat_with_ai_def)
next
  case False
  show ?thesis
  proof (cases "get_or_create_session uuid u session_id db")
    case (Resolved s sid db1)
    note facts = resolved_facts[OF Resolved wf]
    have "s \<in> set (chat_sessions db1)"
      using session_get_props(1)[OF facts(2)] .
    then have "chat_wf (save_turn db1 s (request_message msg) reply)" for reply
      using save_turn_wf[OF facts(1)] by simp
    then show ?thesis
      using facts(1) by (simp add: chat_with_ai_resolved[OF False Resolved] split: sum.splits)
  next
    case NotFound
    then show ?thesis using wf False by (simp add: chat_with_ai_def)
  next
    case (Raised e db1)
    then show ?thesis
      using wf False resolved_unchanged_on_failure[OF Raised] by (simp add: chat_with_ai_def)
  qed
qed

text \<open>
  Claim C1. The response of \<open>chat_with_ai\<close> is the same whatever the message table
  holds: the stored transcript reaches no call of the external model, which sees the system
  instruction and the new message only.
\<close>

theorem chat_reply_ignores_stored_transcript:
  "fst (chat_with_ai m uuid u msg session_id (db\<lparr>chat_messages := ms\<rparr>))
           = fst (chat_with_ai m uuid u msg session_id db)"
proof -
  have g: "\<And>sid. session_get (db\<lparr>chat_messages := ms\<rparr>) sid u = session_get db sid u"
    by (simp add: session_get_def)
  have n: "new_session uuid u (db\<lparr>chat_messages := ms\<rparr>)
        = (case new_session uuid u db of
             Resolved s sid d \<Rightarrow> Resolved s sid (d\<lparr>chat_messages := ms\<rparr>)
           | NotFound \<Rightarrow> NotFound
           | Raised e d \<Rightarrow> Raised e (d\<lparr>chat_messages := ms\<rparr>))"
    by (simp add: new_session_def session_create_def Let_def)
  have l: "\<And>sid. lookup_session u sid (db\<lparr>chat_messages := ms\<rparr>)
        = (case lookup_session u sid db of
             Resolved s sid d \<Rightarrow> Resolved s sid (d\<lparr>chat_messages := ms\<rparr>)
           | NotFound \<Rightarrow> NotFound
           | Raised e d \<Rightarrow> Raised e (d\<lparr>chat_messages := ms\<rparr>))"
    by (simp add: lookup_session_def g split: sum.splits)
  have r: "get_or_create_session uuid u session_id (db\<lparr>chat_messages := ms\<rparr>)
        = (case get_or_create_session uuid u session_id db of
             Resolved s sid d \<Rightarrow> Resolved s sid (d\<lparr>chat_messages := ms\<rparr>)
           | NotFound \<Rightarrow> NotFound
           | Raised e d \<Rightarrow> Raised e (d\<lparr>chat_messages := ms\<rparr>))"
    by (cases session_id) (simp_all add: n l)
  show ?thesis
    by (simp add: chat_with_ai_def Let_def r split: resolved.splits sum.splits)
qed

lemma demo_wf: "chat_wf demo_db"
  by (simp add: chat_wf_def demo_db_def demo_session_def)

lemma demo_message: "request_message (Some '' hi '') = ''hi''"
  by (simp add: request_message_def strip_def is_space_def)

lemma demo_get: "session_get demo_db ''s1'' 2 = Inr demo_session"
  by (simp add: session_get_def demo_db_def demo_session_def)

lemma demo_resolved: "get_or_create_session ''u1'' 2 (Some ''s1'') demo_db = Resolved demo_session ''s1'' demo_db"
  by (simp add: lookup_session_def demo_get)

lemma demo_ok: "generate_reply model_ok ''hi'' = Inr ''ok''"
  by (simp add: generate_reply_def send_message_def model_ok_def)

lemma demo_down: "generate_reply model_down ''hi'' = Inl (ModelError ''unavailable'')"
  by (simp add: generate_reply_def send_message_def model_down_def)

lemma demo_history: "history_messages demo_db demo_session = chat_messages demo_db"
  by (simp add: history_messages_def demo_db_def demo_session_def)

theorem chat_turn_appends_two_or_none_witness:
  "chat_wf demo_db \<and> request_message (Some '' hi '') \<noteq> []
   \<and> get_or_create_session ''u1'' 2 (Some ''s1'') demo_db = Resolved demo_session ''s1'' demo_db
   \<and> generate_reply model_ok (request_message (Some '' hi '')) = Inr ''ok''
   \<and> fst (chat_with_ai model_ok ''u1'' 2 (Some '' hi '') (Some ''s1'') demo_db) = (200, ChatBody ''ok'' ''s1'')
   \<and> chat_messages (snd (chat_with_ai model_ok ''u1'' 2 (Some '' hi '') (Some ''s1'') demo_db))
       = chat_messages demo_db @ turn_rows demo_session ''hi'' ''ok'' 10
   \<and> get_chat_history 2 ''s1'' (snd (chat_with_ai model_ok ''u1'' 2 (Some '' hi '') (Some ''s1'') demo_db))
       = Inr (200, HistoryBody ''s1''
           [(''user'', ''my maize has rust'', 3), (''model'', ''remove the infected leaves'', 4),
            (''user'', ''hi'', 10), (''model'', ''ok'', 11)])
   \<and> generate_reply model_down (request_message (Some '' hi '')) = Inl (ModelError ''unavailable'')
   \<and> fst (chat_with_ai model_down ''u1'' 2 (Some '' hi '') (Some ''s1'') demo_db) = (500, ErrorBody ''unavailable'')
   \<and> chat_messages (snd (chat_with_ai model_down ''u1'' 2 (Some '' hi '') (Some ''s1'') demo_db))
       = chat_messages demo_db"
proof -
  have ne: "request_message (Some '' hi '') \<noteq> []"
    by (simp add: demo_message)
  have c: "clock demo_db = 10"
    by (simp add: demo_db_def)
  have h: "map history_entry (chat_messages demo_db) =
      [(''user'', ''my maize has rust'', 3), (''model'', ''remove the infected leaves'', 4)]"
    by (simp add: demo_db_def history_entry_def)
  have t: "map history_entry (turn_rows demo_session ''hi'' ''ok'' 10) = [(''user'', ''hi'', 10), (''model'', ''ok'', 11)]"
    by (simp add: turn_rows_def history_entry_def)
  show ?thesis
    using chat_turn_appends_two_or_none[OF demo_wf ne demo_resolved, of model_ok]
      chat_turn_appends_two_or_none[OF demo_wf ne demo_resolved, of model_down]
    by (simp add: demo_message demo_ok demo_down demo_wf lookup_session_def demo_get demo_history c h t)
qed

theorem inactive_session_still_usable_witness:
  "chat_wf demo_db \<and> session_get demo_db ''s1'' 2 = Inr demo_session \<and> \<not> cs_is_active demo_session
   \<and> ''s1'' \<notin> set (listed_sessions 2 demo_db)
   \<and> get_chat_history 2 ''s1'' demo_db
       = Inr (200, HistoryBody ''s1''
           [(''user'', ''my maize has rust'', 3), (''model'', ''remove the infected leaves'', 4)])
   \<and> fst (chat_with_ai model_ok ''u1'' 2 (Some '' hi '') (Some ''s1'') demo_db) = (200, ChatBody ''ok'' ''s1'')
   \<and> chat_messages (snd (chat_with_ai model_ok ''u1'' 2 (Some '' hi '') (Some ''s1'') demo_db))
       = chat_messages demo_db @ turn_rows demo_session ''hi'' ''ok'' 10
   \<and> fst (clear_chat_session 2 (Some ''s1'') demo_db) = (200, MessageBody ''Session cleared'')"
proof -
  have ne: "request_message (Some '' hi '') \<noteq> []"
    by (simp add: demo_message)
  have sid: "''s1'' \<noteq> []"
    by simp
  have ok: "generate_reply model_ok (request_message (Some '' hi '')) = Inr ''ok''"
    by (simp add: demo_message demo_ok)
  have off: "\<not> cs_is_active demo_session"
    by (simp add: demo_session_def)
  have c: "clock demo_db = 10"
    by (simp add: demo_db_def)
  have h: "map history_entry (chat_messages demo_db) =
      [(''user'', ''my maize has rust'', 3), (''model'', ''remove the infected leaves'', 4)]"
    by (simp add: demo_db_def history_entry_def)
  show ?thesis
    using inactive_session_still_usable[OF demo_wf demo_get sid ne ok, of "''u1''"] off
    by (simp add: demo_wf demo_get demo_message demo_history c h)
qed

theorem session_lookup_failure_uniform_witness:
  "''s1'' \<noteq> [] \<and> owns_session demo_db ''s1'' 2 \<and> \<not> owns_session demo_db ''s1'' 1 \<and> \<not> owns_session blank_db ''s1'' 1
   \<and> fst (chat_with_ai model_ok ''u1'' 1 (Some ''hi'') (Some ''s1'') demo_db)
       = (404, ErrorBody ''Session not found or access denied'')
   \<and> fst (chat_with_ai model_ok ''u1'' 1 (Some ''hi'') (Some ''s1'') blank_db)
       = (404, ErrorBody ''Session not found or access denied'')
   \<and> get_chat_history 1 ''s1'' demo_db = Inr (404, ErrorBody ''Session not found or access denied'')
   \<and> get_chat_history 1 ''s1'' blank_db = Inr (404, ErrorBody ''Session not found or access denied'')"
proof -
  have sid: "''s1'' \<noteq> []"
    by simp
  have o: "owns_session demo_db ''s1'' 2"
    by (simp add: owns_session_def demo_db_def demo_session_def)
  have o1: "\<not> owns_session demo_db ''s1'' 1"
    by (simp add: owns_session_def demo_db_def demo_session_def)
  have o2: "\<not> owns_session blank_db ''s1'' 1"
    by (simp add: owns_session_def blank_db_def)
  have ne: "request_message (Some ''hi'') \<noteq> []"
    by (simp add: request_message_def strip_def is_space_def)
  note t = session_lookup_failure_uniform[OF sid, of demo_db 1 blank_db model_ok "''u1''" "Some ''hi''"]
  note t' = session_lookup_failure_uniform[OF sid, of blank_db 1 demo_db model_ok "''u1''" "Some ''hi''"]
  show ?thesis
    using t t' o o1 o2 ne sid by blast
qed

text \<open>
  A model that answers with one \<open>x\<close> per history entry it receives: it reports two
  entries (the system instruction and its answer) for a session with two stored messages
  and for the same session with none.
\<close>

lemma chat_counting_example:
  "fst (chat_with_ai model_counting ''u1'' 2 (Some ''hi'') (Some ''s1'') demo_db) = (200, ChatBody ''xx'' ''s1'')
   \<and> fst (chat_with_ai model_counting ''u1'' 2 (Some ''hi'') (Some ''s1'') (demo_db\<lparr>chat_messages := []\<rparr>)) = (200, ChatBody ''xx'' ''s1'')"
  by (simp add: chat_with_ai_def request_message_def strip_def is_space_def lookup_session_def session_get_def
      demo_db_def demo_session_def generate_reply_def send_message_def model_counting_def Let_def)

section \<open>Properties of the daily tip\<close>

lemma yesterday_eq: "date_of (now - 86400) = date_of now - 1"
  by (simp add: date_of_def)

lemma date_bounds: "date_of now * 86400 \<le> now" "now < (date_of now + 1) * 86400"
  unfolding date_of_def by (simp_all add: algebra_simps)

lemma fallback_pool: "length DEFAULT_FALLBACK_TIPS = 5" "distinct DEFAULT_FALLBACK_TIPS"
  by (simp_all add: DEFAULT_FALLBACK_TIPS_def)

lemma random_choice_pool:
  "random_choice r DEFAULT_FALLBACK_TIPS \<in> set DEFAULT_FALLBACK_TIPS"
  unfolding random_choice_def by (rule nth_mem) (simp add: fallback_pool)

lemma random_choice_bij:
  "bij_betw (\<lambda>r. random_choice r DEFAULT_FALLBACK_TIPS) {..<5} (set DEFAULT_FALLBACK_TIPS)"
proof -
  have "bij_betw (\<lambda>r. DEFAULT_FALLBACK_TIPS ! r) {..<length DEFAULT_FALLBACK_TIPS} (set DEFAULT_FALLBACK_TIPS)"
    by (rule bij_betw_nth) (simp_all add: fallback_pool)
  then have "bij_betw (\<lambda>r. DEFAULT_FALLBACK_TIPS ! r) {..<5} (set DEFAULT_FALLBACK_TIPS)"
    by (simp add: fallback_pool)
  moreover have "\<And>r. r \<in> {..<5} \<Longrightarrow> random_choice r DEFAULT_FALLBACK_TIPS = DEFAULT_FALLBACK_TIPS ! r"
    by (simp add: random_choice_def fallback_pool)
  ultimately show ?thesis
    using bij_betw_cong[of "{..<5}" "\<lambda>r. random_choice r DEFAULT_FALLBACK_TIPS" "\<lambda>r. DEFAULT_FALLBACK_TIPS ! r" "set DEFAULT_FALLBACK_TIPS"]
    by blast
qed

text \<open>
  Claim C3. \<open>get_daily_farming_tip\<close> answers 200 with a tip for every model, key, draw,
  time and cache: the result of the \<open>try\<close> block when it raises nothing; else, whatever
  was raised, yesterday's cached tip with \<open>fallback\<close> and \<open>cached\<close> both true when
  there is a non-empty one; else the default tip the draw selects, with \<open>fallback\<close> true
  and \<open>cached\<close> false. The pool has five tips, and the draws below five select its
  tips one-to-one, so a uniform draw is a uniform choice from the pool.
\<close>

theorem daily_tip_always_returns:
  "fst (fst (get_daily_farming_tip m api_key r now c)) = 200
   \<and> (\<forall>t c'. fresh_tip m api_key now c = Inr (t, c') \<longrightarrow>
         get_daily_farming_tip m api_key r now c = ((200, t), c'))
   \<and> (\<forall>e y. fresh_tip m api_key now c = Inl e \<and> truthy_tip (cache_get c now (date_of now - 1)) = Some y \<longrightarrow>
         get_daily_farming_tip m api_key r now c =
           ((200, \<lparr>rsp_tip = y, rsp_cached = True, rsp_fallback = Some True, rsp_date = date_of now - 1\<rparr>), c))
   \<and> (\<forall>e. fresh_tip m api_key now c = Inl e \<and> truthy_tip (cache_get c now (date_of now - 1)) = None \<longrightarrow>
         get_daily_farming_tip m api_key r now c =
           ((200, \<lparr>rsp_tip = random_choice r DEFAULT_FALLBACK_TIPS, rsp_cached = False,
                   rsp_fallback = Some True, rsp_date = date_of now\<rparr>), c)
         \<and> random_choice r DEFAULT_FALLBACK_TIPS \<in> set DEFAULT_FALLBACK_TIPS)
   \<and> length DEFAULT_FALLBACK_TIPS = 5
   \<and> bij_betw (\<lambda>i. random_choice i DEFAULT_FALLBACK_TIPS) {..<5} (set DEFAULT_FALLBACK_TIPS)"
proof (intro conjI allI impI)
  show "fst (fst (get_daily_farming_tip m api_key r now c)) = 200"
    by (simp add: get_daily_farming_tip_def split: sum.splits)
  show "length DEFAULT_FALLBACK_TIPS = 5"
    by (rule fallback_pool)
  show "bij_betw (\<lambda>i. random_choice i DEFAULT_FALLBACK_TIPS) {..<5} (set DEFAULT_FALLBACK_TIPS)"
    by (rule random_choice_bij)
next
  fix t c'
  assume "fresh_tip m api_key now c = Inr (t, c')"
  then show "get_daily_farming_tip m api_key r now c = ((200, t), c')"
    by (simp add: get_daily_farming_tip_def)
next
  fix e y
  assume "fresh_tip m api_key now c = Inl e \<and> truthy_tip (cache_get c now (date_of now - 1)) = Some y"
  then show "get_daily_farming_tip m api_key r now c =
      ((200, \<lparr>rsp_tip = y, rsp_cached = True, rsp_fallback = Some True, rsp_date = date_of now - 1\<rparr>), c)"
    by (simp add: get_daily_farming_tip_def fallback_tip_def yesterday_eq)
next
  fix e
  assume a: "fresh_tip m api_key now c = Inl e \<and> truthy_tip (cache_get c now (date_of now - 1)) = None"
  then show "get_daily_farming_tip m api_key r now c =
      ((200, \<lparr>rsp_tip = random_choice r DEFAULT_FALLBACK_TIPS, rsp_cached = False,
              rsp_fallback = Some True, rsp_date = date_of now\<rparr>), c)"
    by (simp add: get_daily_farming_tip_def fallback_tip_def yesterday_eq)
  show "random_choice r DEFAULT_FALLBACK_TIPS \<in> set DEFAULT_FALLBACK_TIPS"
    by (rule random_choice_pool)
qed

lemma cache_get_own_day:
  assumes "tip_cache_wf c" "date_of now \<le> k + 1"
  shows "cache_get c now k = map_option fst (c k)"
proof (cases "c k")
  case None
  then show ?thesis by (simp add: cache_get_def)
next
  case (Some p)
  obtain v e where p: "p = (v, e)" by (cases p)
  have "(k + 2) * 86400 \<le> e"
    using assms(1) Some p by (auto simp: tip_cache_wf_def)
  moreover have "now < (date_of now + 1) * 86400"
    by (rule date_bounds)
  moreover have "(date_of now + 1) * 86400 \<le> (k + 2) * 86400"
    using assms(2) by simp
  ultimately have "now < e" by linarith
  then show ?thesis
    using Some p by (simp add: cache_get_def)
qed

lemma cache_set_wf:
  assumes "tip_cache_wf c"
  shows "tip_cache_wf (cache_set c now (date_of now) t (60 * 60 * 48))"
proof -
  have "(date_of now + 2) * 86400 \<le> now + 172800"
    using date_bounds(1)[of now] by (simp add: algebra_simps)
  then show ?thesis
    using assms by (auto simp: tip_cache_wf_def cache_set_def)
qed

lemma fresh_tip_hit:
  "truthy_tip (cache_get c now (date_of now)) = Some t \<Longrightarrow>
   fresh_tip m api_key now c =
     Inr (\<lparr>rsp_tip = t, rsp_cached = True, rsp_fallback = None, rsp_date = date_of now\<rparr>, c)"
  by (simp add: fresh_tip_def)

lemma fresh_tip_miss:
  "truthy_tip (cache_get c now (date_of now)) = None \<Longrightarrow> generate_tip m api_key = Inr t \<Longrightarrow>
   fresh_tip m api_key now c =
     Inr (\<lparr>rsp_tip = t, rsp_cached = False, rsp_fallback = None, rsp_date = date_of now\<rparr>,
          cache_set c now (date_of now) t (60 * 60 * 48))"
  by (simp add: fresh_tip_def Let_def)

lemma truthy_tip_Some: "truthy_tip v = Some t \<longleftrightarrow> v = Some t \<and> t \<noteq> []"
  by (auto simp: truthy_tip_def split: option.splits)

lemma stored_tip_readable:
  assumes "now \<le> now'" "now' < now + 172800"
  shows "cache_get (cache_set c now k t (60 * 60 * 48)) now' k = Some t"
  using assms by (simp add: cache_get_def cache_set_def)

lemma next_day_within_retention:
  assumes "date_of now' \<le> date_of now + 1"
  shows "now' < now + 172800"
proof -
  have "now' < (date_of now' + 1) * 86400" by (rule date_bounds)
  also have "\<dots> \<le> (date_of now + 2) * 86400" using assms by simp
  also have "\<dots> \<le> now + 172800" using date_bounds(1)[of now] by (simp add: algebra_simps)
  finally show ?thesis .
qed

lemma first_call_leaves_tip:
  assumes wf: "tip_cache_wf c"
    and first: "get_daily_farming_tip m api_key r now1 c = ((st, resp1), c1)"
    and nofb: "rsp_fallback resp1 = None" and ne: "rsp_tip resp1 \<noteq> []"
  shows "tip_cache_wf c1 \<and> map_option fst (c1 (date_of now1)) = Some (rsp_tip resp1)"
proof (cases "truthy_tip (cache_get c now1 (date_of now1))")
  case (Some t)
  then have "cache_get c now1 (date_of now1) = Some t"
    by (simp add: truthy_tip_Some)
  then have "map_option fst (c (date_of now1)) = Some t"
    using cache_get_own_day[OF wf, of now1 "date_of now1"] by simp
  then show ?thesis
    using first wf by (simp add: get_daily_farming_tip_def fresh_tip_hit[OF Some]) auto
next
  case None
  show ?thesis
  proof (cases "generate_tip m api_key")
    case (Inl e)
    then have "fresh_tip m api_key now1 c = Inl e"
      using None by (simp add: fresh_tip_def)
    then have "resp1 = fallback_tip r now1 c"
      using first by (auto simp: get_daily_farming_tip_def)
    then have "rsp_fallback resp1 = Some True"
      by (simp add: fallback_tip_def Let_def split: option.splits)
    then show ?thesis using nofb by simp
  next
    case (Inr t)
    then show ?thesis
      using first cache_set_wf[OF wf, of now1 t]
      by (simp add: get_daily_farming_tip_def fresh_tip_miss[OF None Inr]) (auto simp: cache_set_def)
  qed
qed

text \<open>
  Claim C4, as amended. On a cache whose entries were written by the handler: a non-empty tip
  cached under today's key is returned as it is with \<open>cached\<close> true and the cache
  untouched; on a miss with a successful generation the stripped text is returned with
  \<open>cached\<close> false and stored under today's key for 48 hours, so that it can be read at
  any later instant up to the end of the following day; and when a call returned a
  non-empty tip that is no fallback, any call later the same day returns that very text
  with \<open>cached\<close> true, whatever the model does by then.
\<close>

theorem daily_tip_same_day_cached:
  assumes wf: "tip_cache_wf c"
    and first: "get_daily_farming_tip m api_key r now1 c = ((st, resp1), c1)"
    and same_day: "date_of now2 = date_of now1"
  shows "(\<forall>t. truthy_tip (cache_get c now1 (date_of now1)) = Some t \<longrightarrow>
            resp1 = \<lparr>rsp_tip = t, rsp_cached = True, rsp_fallback = None, rsp_date = date_of now1\<rparr>
          \<and> c1 = c)
       \<and> (\<forall>t. truthy_tip (cache_get c now1 (date_of now1)) = None \<and> generate_tip m api_key = Inr t \<longrightarrow>
            resp1 = \<lparr>rsp_tip = t, rsp_cached = False, rsp_fallback = None, rsp_date = date_of now1\<rparr>
          \<and> c1 = cache_set c now1 (date_of now1) t (60 * 60 * 48)
          \<and> (\<forall>now'. now1 \<le> now' \<and> date_of now' \<le> date_of now1 + 1 \<longrightarrow>
                cache_get c1 now' (date_of now1) = Some t))
       \<and> (rsp_fallback resp1 = None \<and> rsp_tip resp1 \<noteq> [] \<longrightarrow>
            get_daily_farming_tip m' api_key' r' now2 c1 =
              ((200, \<lparr>rsp_tip = rsp_tip resp1, rsp_cached = True, rsp_fallback = None,
                      rsp_date = date_of now1\<rparr>), c1))"
proof (intro conjI allI impI)
  fix t
  assume hit: "truthy_tip (cache_get c now1 (date_of now1)) = Some t"
  show "resp1 = \<lparr>rsp_tip = t, rsp_cached = True, rsp_fallback = None, rsp_date = date_of now1\<rparr>"
    using first by (simp add: get_daily_farming_tip_def fresh_tip_hit[OF hit])
  show "c1 = c"
    using first by (simp add: get_daily_farming_tip_def fresh_tip_hit[OF hit])
next
  fix t
  assume a: "truthy_tip (cache_get c now1 (date_of now1)) = None \<and> generate_tip m api_key = Inr t"
  then have miss: "truthy_tip (cache_get c now1 (date_of now1)) = None" and gen: "generate_tip m api_key = Inr t"
    by simp_all
  show "resp1 = \<lparr>rsp_tip = t, rsp_cached = False, rsp_fallback = None, rsp_date = date_of now1\<rparr>"
    using first by (simp add: get_daily_farming_tip_def fresh_tip_miss[OF miss gen])
  show c1: "c1 = cache_set c now1 (date_of now1) t (60 * 60 * 48)"
    using first by (simp add: get_daily_farming_tip_def fresh_tip_miss[OF miss gen])
  fix now'
  assume b: "now1 \<le> now' \<and> date_of now' \<le> date_of now1 + 1"
  then have "now' < now1 + 172800"
    using next_day_within_retention[of now' now1] by simp
  then show "cache_get c1 now' (date_of now1) = Some t"
    using b stored_tip_readable[of now1 now'] by (simp add: c1)
next
  assume a: "rsp_fallback resp1 = None \<and> rsp_tip resp1 \<noteq> []"
  then have l: "tip_cache_wf c1" "map_option fst (c1 (date_of now1)) = Some (rsp_tip resp1)"
    using first_call_leaves_tip[OF wf first] by simp_all
  have "cache_get c1 now2 (date_of now2) = Some (rsp_tip resp1)"
    using cache_get_own_day[OF l(1), of now2 "date_of now2"] l(2) same_day by simp
  then have "truthy_tip (cache_get c1 now2 (date_of now2)) = Some (rsp_tip resp1)"
    using a by (simp add: truthy_tip_Some)
  then show "get_daily_farming_tip m' api_key' r' now2 c1 =
      ((200, \<lparr>rsp_tip = rsp_tip resp1, rsp_cached = True, rsp_fallback = None, rsp_date = date_of now1\<rparr>), c1)"
    using same_day by (simp add: get_daily_farming_tip_def fresh_tip_hit)
qed

lemma empty_cache_wf: "tip_cache_wf Map.empty"
  by (simp add: tip_cache_wf_def)

lemma daily_tip_keeps_wf:
  assumes "tip_cache_wf c"
  shows "tip_cache_wf (snd (get_daily_farming_tip m api_key r now c))"
  using assms cache_set_wf[OF assms, of now]
  by (auto simp: get_daily_farming_tip_def fresh_tip_def Let_def split: sum.splits option.splits)

lemma example_days: "date_of 8640005 = 100" "date_of 8683200 = 100"
  by (simp_all add: date_of_def)

lemma example_generate:
  "generate_tip model_ok ''key'' = Inr ''ok''"
  "generate_tip model_blank ''key'' = Inr []"
  "generate_tip model_down ''key'' = Inl (ModelError ''unavailable'')"
  by (simp_all add: generate_tip_def model_ok_def model_blank_def model_down_def strip_def is_space_def)

lemma example_first_blank:
  "get_daily_farming_tip model_blank ''key'' 0 8640005 Map.empty =
     ((200, \<lparr>rsp_tip = [], rsp_cached = False, rsp_fallback = None, rsp_date = 100\<rparr>),
      [100 \<mapsto> ([], 8812805)])"
  by (simp add: get_daily_farming_tip_def fresh_tip_def example_days example_generate cache_get_def
      truthy_tip_def cache_set_def Let_def)

lemma example_second_blank:
  "get_daily_farming_tip model_ok ''key'' 0 8683200 [100 \<mapsto> ([], 8812805)] =
     ((200, \<lparr>rsp_tip = ''ok'', rsp_cached = False, rsp_fallback = None, rsp_date = 100\<rparr>),
      [100 \<mapsto> (''ok'', 8856000)])"
  by (simp add: get_daily_farming_tip_def fresh_tip_def example_days example_generate cache_get_def
      truthy_tip_def cache_set_def Let_def)

lemma example_fallback:
  "get_daily_farming_tip model_down ''key'' r 8640005 Map.empty =
     ((200, \<lparr>rsp_tip = random_choice r DEFAULT_FALLBACK_TIPS, rsp_cached = False,
             rsp_fallback = Some True, rsp_date = 100\<rparr>), Map.empty)"
  "get_daily_farming_tip model_down ''key'' r 8683200 Map.empty =
     ((200, \<lparr>rsp_tip = random_choice r DEFAULT_FALLBACK_TIPS, rsp_cached = False,
             rsp_fallback = Some True, rsp_date = 100\<rparr>), Map.empty)"
  by (simp_all add: get_daily_farming_tip_def fresh_tip_def fallback_tip_def example_days example_generate
      cache_get_def truthy_tip_def)

text \<open>
  The claim as stated fails twice. A generation that answers whitespace stores the empty
  text under today's key; the next call the same day reads it as a miss, generates again
  and returns another text with \<open>cached\<close> false. And with the model down and nothing
  cached, two calls the same day return the default tips their draws select, here two
  different ones, both with \<open>cached\<close> false.
\<close>

theorem daily_tip_same_day_counterexample:
  "date_of 8683200 = date_of 8640005
   \<and> snd (get_daily_farming_tip model_blank ''key'' 0 8640005 Map.empty) (date_of 8640005) = Some ([], 8812805)
   \<and> fst (get_daily_farming_tip model_ok ''key'' 0 8683200
            (snd (get_daily_farming_tip model_blank ''key'' 0 8640005 Map.empty)))
       = (200, \<lparr>rsp_tip = ''ok'', rsp_cached = False, rsp_fallback = None, rsp_date = 100\<rparr>)
   \<and> rsp_tip (snd (fst (get_daily_farming_tip model_down ''key'' 0 8640005 Map.empty)))
       \<noteq> rsp_tip (snd (fst (get_daily_farming_tip model_down ''key'' 1 8683200
             (snd (get_daily_farming_tip model_down ''key'' 0 8640005 Map.empty)))))
   \<and> \<not> rsp_cached (snd (fst (get_daily_farming_tip model_down ''key'' 1 8683200
             (snd (get_daily_farming_tip model_down ''key'' 0 8640005 Map.empty)))))"
  by (simp add: example_first_blank example_second_blank example_fallback example_days
      random_choice_def DEFAULT_FALLBACK_TIPS_def)

theorem daily_tip_always_returns_witness:
  "fresh_tip model_down ''key'' 8640005 Map.empty = Inl (ModelError ''unavailable'')
   \<and> truthy_tip (cache_get Map.empty 8640005 (date_of 8640005 - 1)) = None
   \<and> get_daily_farming_tip model_down ''key'' 7 8640005 Map.empty =
       ((200, \<lparr>rsp_tip = DEFAULT_FALLBACK_TIPS ! 2, rsp_cached = False, rsp_fallback = Some True,
               rsp_date = 100\<rparr>), Map.empty)
   \<and> fresh_tip model_down ''key'' 8640005 [99 \<mapsto> (''Prune early.'', 8726400)] = Inl (ModelError ''unavailable'')
   \<and> truthy_tip (cache_get [99 \<mapsto> (''Prune early.'', 8726400)] 8640005 (date_of 8640005 - 1)) = Some ''Prune early.''
   \<and> get_daily_farming_tip model_down ''key'' 7 8640005 [99 \<mapsto> (''Prune early.'', 8726400)] =
       ((200, \<lparr>rsp_tip = ''Prune early.'', rsp_cached = True, rsp_fallback = Some True,
               rsp_date = 99\<rparr>), [99 \<mapsto> (''Prune early.'', 8726400)])"
proof -
  have a: "fresh_tip model_down ''key'' 8640005 Map.empty = Inl (ModelError ''unavailable'')"
    by (simp add: fresh_tip_def example_generate cache_get_def truthy_tip_def)
  have b: "truthy_tip (cache_get Map.empty 8640005 (date_of 8640005 - 1)) = None"
    by (simp add: cache_get_def truthy_tip_def)
  have a': "fresh_tip model_down ''key'' 8640005 [99 \<mapsto> (''Prune early.'', 8726400)] = Inl (ModelError ''unavailable'')"
    by (simp add: fresh_tip_def example_generate cache_get_def truthy_tip_def example_days)
  have b': "truthy_tip (cache_get [99 \<mapsto> (''Prune early.'', 8726400)] 8640005 (date_of 8640005 - 1)) = Some ''Prune early.''"
    by (simp add: cache_get_def truthy_tip_def example_days Let_def)
  have r: "random_choice 7 DEFAULT_FALLBACK_TIPS = DEFAULT_FALLBACK_TIPS ! 2"
    by (simp add: random_choice_def fallback_pool)
  show ?thesis
    using daily_tip_always_returns[of model_down "''key''" 7 8640005 Map.empty]
      daily_tip_always_returns[of model_down "''key''" 7 8640005 "[99 \<mapsto> (''Prune early.'', 8726400)]"]
      a b a' b' r
    by (simp add: example_days)
qed

theorem daily_tip_same_day_cached_witness:
  "tip_cache_wf Map.empty \<and> date_of 8683200 = date_of 8640005
   \<and> get_daily_farming_tip model_ok ''key'' 0 8640005 Map.empty =
       ((200, \<lparr>rsp_tip = ''ok'', rsp_cached = False, rsp_fallback = None, rsp_date = 100\<rparr>),
        [100 \<mapsto> (''ok'', 8812805)])
   \<and> get_daily_farming_tip model_down ''key'' 3 8683200 [100 \<mapsto> (''ok'', 8812805)] =
       ((200, \<lparr>rsp_tip = ''ok'', rsp_cached = True, rsp_fallback = None, rsp_date = 100\<rparr>),
        [100 \<mapsto> (''ok'', 8812805)])"
proof -
  have f: "get_daily_farming_tip model_ok ''key'' 0 8640005 Map.empty =
       ((200, \<lparr>rsp_tip = ''ok'', rsp_cached = False, rsp_fallback = None, rsp_date = 100\<rparr>),
        [100 \<mapsto> (''ok'', 8812805)])"
    by (simp add: get_daily_farming_tip_def fresh_tip_def example_days example_generate cache_get_def
      truthy_tip_def cache_set_def Let_def)
  have d: "date_of 8683200 = date_of 8640005"
    by (simp add: example_days)
  show ?thesis
    using daily_tip_same_day_cached[OF empty_cache_wf f d, of model_down "''key''" 3] empty_cache_wf
    by (simp add: f example_days)
qed

section \<open>Properties of the community feed\<close>

lemma post_get_pk: "post_get db pk = Some p \<Longrightarrow> post_pk p = pk"
  by (auto simp: post_get_def find_Some_iff)

lemma toggle_found:
  "post_get db pk = Some p \<Longrightarrow> toggle_post_like u pk db = toggle_act (like_exists db u p) u p db"
  by (simp add: toggle_post_like_def)

lemma toggle_unliked:
  assumes "\<not> like_exists db u p"
  shows "toggle_act False u p db =
     (Inr (200, LikeBody ''Post liked'' True (Suc (likes_count db p))),
      db\<lparr>likes := likes db @ [\<lparr>like_user = u, like_post = post_pk p\<rparr>]\<rparr>)"
  using assms by (simp add: toggle_act_def like_create_def likes_count_def)

lemma toggle_liked:
  "toggle_act True u p db =
     (Inr (200, LikeBody ''Post unliked'' False (likes_count (like_delete db u p) p)), like_delete db u p)"
  by (simp add: toggle_act_def Let_def)

lemma like_exists_after_create:
  "like_exists (db\<lparr>likes := likes db @ [\<lparr>like_user = u, like_post = post_pk p\<rparr>]\<rparr>) v p
     = (v = u \<or> like_exists db v p)"
  by (auto simp: like_exists_def list_ex_iff)

lemma like_exists_after_delete:
  "like_exists (like_delete db u p) v p = (v \<noteq> u \<and> like_exists db v p)"
  by (auto simp: like_exists_def like_delete_def list_ex_iff)

lemma delete_after_create:
  assumes "\<not> like_exists db u p"
  shows "like_delete (db\<lparr>likes := likes db @ [\<lparr>like_user = u, like_post = post_pk p\<rparr>]\<rparr>) u p = db"
proof -
  have "filter (\<lambda>l. \<not> (like_user l = u \<and> like_post l = post_pk p)) (likes db) = likes db"
    using assms by (auto simp: like_exists_def list_ex_iff filter_id_conv)
  then show ?thesis by (simp add: like_delete_def)
qed

lemma post_get_likes_update [simp]: "post_get (db\<lparr>likes := ls\<rparr>) pk = post_get db pk"
  by (simp add: post_get_def)

lemma post_get_like_delete [simp]: "post_get (like_delete db u p) pk = post_get db pk"
  by (simp add: like_delete_def)

lemma toggle_twice:
  assumes "post_get db pk = Some p"
  shows "\<exists>b1 db1 b2 db2.
           toggle_post_like u pk db = (Inr (200, b1), db1)
         \<and> toggle_post_like u pk db1 = (Inr (200, b2), db2)
         \<and> like_exists db1 u p = (\<not> like_exists db u p)
         \<and> like_exists db2 u p = like_exists db u p
         \<and> (\<not> like_exists db u p \<longrightarrow> db2 = db)"
proof (cases "like_exists db u p")
  case True
  let ?db1 = "like_delete db u p"
  have n: "\<not> like_exists ?db1 u p"
    by (simp add: like_exists_after_delete)
  have 1: "toggle_post_like u pk db = (Inr (200, LikeBody ''Post unliked'' False (likes_count ?db1 p)), ?db1)"
    using assms True by (simp add: toggle_found toggle_liked)
  have 2: "toggle_post_like u pk ?db1 =
      (Inr (200, LikeBody ''Post liked'' True (Suc (likes_count ?db1 p))),
       ?db1\<lparr>likes := likes ?db1 @ [\<lparr>like_user = u, like_post = post_pk p\<rparr>]\<rparr>)"
    using assms n by (simp add: toggle_found toggle_unliked)
  show ?thesis
    using 1 2 n True by (simp add: like_exists_after_create)
next
  case False
  let ?db1 = "db\<lparr>likes := likes db @ [\<lparr>like_user = u, like_post = post_pk p\<rparr>]\<rparr>"
  have y: "like_exists ?db1 u p"
    by (simp add: like_exists_after_create)
  have 1: "toggle_post_like u pk db = (Inr (200, LikeBody ''Post liked'' True (Suc (likes_count db p))), ?db1)"
    using assms False by (simp add: toggle_found toggle_unliked)
  have 2: "toggle_post_like u pk ?db1 =
      (Inr (200, LikeBody ''Post unliked'' False (likes_count (like_delete ?db1 u p) p)), like_delete ?db1 u p)"
    using assms y by (simp add: toggle_found toggle_liked)
  show ?thesis
    using 1 2 y False by (simp add: delete_after_create like_exists_after_delete)
qed

lemma toggle_all_count:
  assumes "post_get db pk = Some p" "distinct us" "\<forall>v \<in> set us. \<not> like_exists db v p"
  shows "likes_count (toggle_all us pk db) p = likes_count db p + length us"
  using assms
proof (induction us arbitrary: db)
  case Nil
  then show ?case by (simp add: toggle_all_def)
next
  case (Cons u us)
  let ?db1 = "db\<lparr>likes := likes db @ [\<lparr>like_user = u, like_post = post_pk p\<rparr>]\<rparr>"
  have nu: "\<not> like_exists db u p"
    using Cons.prems(3) by simp
  have step: "snd (toggle_post_like u pk db) = ?db1"
    using Cons.prems(1) nu by (simp add: toggle_found toggle_unliked)
  have rest: "\<forall>v \<in> set us. \<not> like_exists ?db1 v p"
    using Cons.prems(2,3) by (auto simp: like_exists_after_create)
  have "likes_count (toggle_all us pk ?db1) p = likes_count ?db1 p + length us"
    using Cons.IH[of ?db1] Cons.prems(1,2) rest by simp
  moreover have "likes_count ?db1 p = Suc (likes_count db p)"
    by (simp add: likes_count_def)
  moreover have "toggle_all (u # us) pk db = toggle_all us pk ?db1"
    by (simp add: toggle_all_def step)
  ultimately show ?case by simp
qed

lemma toggle_reports_recount:
  "toggle_post_like u pk db = (Inr (st, LikeBody msg liked n), db') \<Longrightarrow> post_get db pk = Some p \<Longrightarrow>
   n = likes_count db' p"
  by (auto simp: toggle_post_like_def toggle_act_def Let_def like_create_def split: if_splits)

text \<open>
  Claim C7. On an existing post, two toggles by the same user both answer 200, the first
  flips the user's liked state and the second restores it, and from the unliked state the
  second restores the whole database. When users who have not liked the post toggle once
  each, the count of likes grows by their number, in whatever order they come. The count a
  toggle reports is the recount of the like rows after it, and \<open>likes_count\<close> and
  \<open>comments_count\<close> are the numbers of rows of the post in the two tables.
\<close>

theorem like_toggle_involution:
  assumes "post_get db pk = Some p"
  shows "(\<exists>b1 db1 b2 db2.
           toggle_post_like u pk db = (Inr (200, b1), db1)
         \<and> toggle_post_like u pk db1 = (Inr (200, b2), db2)
         \<and> like_exists db1 u p = (\<not> like_exists db u p)
         \<and> like_exists db2 u p = like_exists db u p
         \<and> (\<not> like_exists db u p \<longrightarrow> db2 = db))
       \<and> (distinct us \<and> (\<forall>v \<in> set us. \<not> like_exists db v p) \<longrightarrow>
            likes_count (toggle_all us pk db) p = likes_count db p + length us
          \<and> (\<forall>us'. distinct us' \<and> set us' = set us \<longrightarrow>
                likes_count (toggle_all us' pk db) p = likes_count (toggle_all us pk db) p))
       \<and> (\<forall>st msg liked n db'. toggle_post_like u pk db = (Inr (st, LikeBody msg liked n), db') \<longrightarrow>
            n = likes_count db' p)
       \<and> likes_count db p = length (filter (\<lambda>l. like_post l = post_pk p) (likes db))
       \<and> comments_count db p = length (filter (\<lambda>c. comment_post c = post_pk p) (comments db))"
proof (intro conjI impI allI)
  show "\<exists>b1 db1 b2 db2.
           toggle_post_like u pk db = (Inr (200, b1), db1)
         \<and> toggle_post_like u pk db1 = (Inr (200, b2), db2)
         \<and> like_exists db1 u p = (\<not> like_exists db u p)
         \<and> like_exists db2 u p = like_exists db u p
         \<and> (\<not> like_exists db u p \<longrightarrow> db2 = db)"
    by (rule toggle_twice[OF assms])
  show "likes_count db p = length (filter (\<lambda>l. like_post l = post_pk p) (likes db))"
    by (simp add: likes_count_def)
  show "comments_count db p = length (filter (\<lambda>c. comment_post c = post_pk p) (comments db))"
    by (simp add: comments_count_def)
next
  assume a: "distinct us \<and> (\<forall>v \<in> set us. \<not> like_exists db v p)"
  then show c: "likes_count (toggle_all us pk db) p = likes_count db p + length us"
    using toggle_all_count[OF assms, of us] by simp
  fix us'
  assume b: "distinct us' \<and> set us' = set us"
  then have "likes_count (toggle_all us' pk db) p = likes_count db p + length us'"
    using toggle_all_count[OF assms, of us'] a by simp
  moreover have "length us' = length us"
    using a b by (metis distinct_card)
  ultimately show "likes_count (toggle_all us' pk db) p = likes_count (toggle_all us pk db) p"
    using c by simp
next
  fix st msg liked n db'
  assume "toggle_post_like u pk db = (Inr (st, LikeBody msg liked n), db')"
  then show "n = likes_count db' p"
    using assms by (rule toggle_reports_recount)
qed

section \<open>Properties of the tutorial catalog and of the post views\<close>

lemma post_views_never_403:
  "http_status (fst (post_destroy u pk db)) \<noteq> 403
   \<and> http_status (fst (post_update u pk data db)) \<noteq> 403"
  by (simp add: post_destroy_def perform_destroy_def post_update_def perform_update_def
      http_status_def Let_def split: option.splits sum.splits)

lemma non_author_post:
  assumes "post_get db pk = Some p" "post_author p \<noteq> u"
  shows "post_destroy u pk db = (Inl (PermissionError ''You can only delete your own posts''), db)"
    and "post_update u pk (Inr content) db = (Inl (PermissionError ''You can only edit your own posts''), db)"
    and "http_status (fst (post_destroy u pk db)) = 500"
    and "http_status (fst (post_update u pk (Inr content) db)) = 500"
  using assms by (simp_all add: post_destroy_def perform_destroy_def post_update_def perform_update_def http_status_def)

lemma non_author_comment:
  assumes "find (\<lambda>c. comment_pk c = comment_id \<and> comment_post c = pk) (comments db) = Some c"
    and "comment_user c \<noteq> u"
  shows "delete_comment u pk comment_id db = (Inr (403, FeedError ''You can only delete your own comments''), db)"
  using assms by (simp add: delete_comment_def)

lemma tutorial_post_never_403:
  "http_status (fst (tutorial_post u data db)) \<noteq> 403"
proof -
  have "lower (strip ''extension_worker'') = ''extension_worker''"
    by (simp add: lower_def lower_char_def strip_def is_space_def)
  then show ?thesis
    by (simp add: tutorial_post_def tutorial_create_def mixin_create_def serializer_validate_def
        perform_create_def handle_exception_def http_status_def Let_def
        split: sum.splits prod.splits exn.splits if_splits)
qed

lemma farmer_gets_400:
  assumes "user_type u \<noteq> ''extension_worker''"
  shows "tutorial_post u (Inr attrs0) db =
     (Inr (400, TutorialError ''Only extension workers can upload tutorials''), db)"
  using assms
  by (simp add: tutorial_post_def tutorial_create_def mixin_create_def serializer_validate_def handle_exception_def)

lemma worker_creates:
  assumes "user_type u = ''extension_worker''"
  shows "tutorial_post u (Inr attrs0) db =
     (Inr (201, TutorialBody (fst (tutorial_save u attrs0 db))), snd (tutorial_save u attrs0 db))"
proof -
  have "lower (strip ''extension_worker'') = ''extension_worker''"
    by (simp add: lower_def lower_char_def strip_def is_space_def)
  then show ?thesis
    using assms
    by (simp add: tutorial_post_def tutorial_create_def mixin_create_def serializer_validate_def
        perform_create_def handle_exception_def split: prod.splits)
qed

lemma tutorial_get_after_save:
  assumes "tutorial_get db pk = Some t" "tut_pk inst = pk"
  shows "tutorial_get (save_view_count inst db) pk = Some (t\<lparr>tut_view_count := tut_view_count inst\<rparr>)"
proof -
  have h: "find (\<lambda>t. tut_pk t = pk)
        (map (\<lambda>t. if tut_pk t = pk then t\<lparr>tut_view_count := tut_view_count inst\<rparr> else t) xs)
      = map_option (\<lambda>t. t\<lparr>tut_view_count := tut_view_count inst\<rparr>) (find (\<lambda>t. tut_pk t = pk) xs)" for xs
    by (induction xs) auto
  have "tutorial_get (save_view_count inst db) pk
      = find (\<lambda>t. tut_pk t = pk)
          (map (\<lambda>t. if tut_pk t = pk then t\<lparr>tut_view_count := tut_view_count inst\<rparr> else t) (tutorials db))"
    using assms(2) by (simp add: tutorial_get_def save_view_count_def)
  also have "\<dots> = map_option (\<lambda>t. t\<lparr>tut_view_count := tut_view_count inst\<rparr>) (tutorial_get db pk)"
    unfolding tutorial_get_def by (rule h)
  finally show ?thesis
    using assms(1) by simp
qed

lemma tutorial_get_pk: "tutorial_get db pk = Some t \<Longrightarrow> tut_pk t = pk"
  by (auto simp: tutorial_get_def find_Some_iff)

lemma increment_views_found:
  assumes "tutorial_get db pk = Some t"
  shows "increment_views pk db =
     ((200, ViewCountBody ''View count incremented'' (tut_view_count t + 1)),
      snd (increment_view_count t db))"
    and "view_count_of (snd (increment_view_count t db)) pk = Some (tut_view_count t + 1)"
    and "tutorial_get (snd (increment_view_count t db)) pk = Some (t\<lparr>tut_view_count := tut_view_count t + 1\<rparr>)"
  using assms tutorial_get_after_save[OF assms, of "t\<lparr>tut_view_count := tut_view_count t + 1\<rparr>"]
    tutorial_get_pk[OF assms]
  by (simp_all add: increment_views_def increment_view_count_def Let_def view_count_of_def)

lemma interleaved_toggle:
  assumes "\<not> like_exists db u p"
  shows "\<exists>b db1. toggle_act False u p db = (Inr (200, b), db1)
           \<and> toggle_act False u p db1 = (Inl IntegrityError, db1)
           \<and> like_exists db1 u p"
  using assms
  by (simp add: toggle_unliked like_exists_after_create toggle_act_def like_create_def)

lemma two_increments:
  assumes "tutorial_get db pk = Some t"
  shows "view_count_of (snd (increment_views pk (snd (increment_views pk db)))) pk
           = Some (tut_view_count t + 2)
       \<and> view_count_of (snd (increment_view_count t (snd (increment_view_count t db)))) pk
           = Some (tut_view_count t + 1)"
proof
  let ?db1 = "snd (increment_view_count t db)"
  let ?t1 = "t\<lparr>tut_view_count := tut_view_count t + 1\<rparr>"
  have g1: "tutorial_get ?db1 pk = Some ?t1"
    using increment_views_found(3)[OF assms] .
  have "view_count_of (snd (increment_view_count ?t1 ?db1)) pk = Some (tut_view_count ?t1 + 1)"
    using increment_views_found(2)[OF g1] .
  then show "view_count_of (snd (increment_views pk (snd (increment_views pk db)))) pk = Some (tut_view_count t + 2)"
    by (simp add: increment_views_found(1)[OF assms] increment_views_found(1)[OF g1])
  have "tutorial_get (save_view_count ?t1 ?db1) pk = Some (?t1\<lparr>tut_view_count := tut_view_count ?t1\<rparr>)"
    by (rule tutorial_get_after_save[OF g1]) (simp add: tutorial_get_pk[OF assms])
  then show "view_count_of (snd (increment_view_count t ?db1)) pk = Some (tut_view_count t + 1)"
    by (simp add: increment_view_count_def Let_def view_count_of_def)
qed

text \<open>
  Claim C9, as amended. The view-count increment is a read-modify-write: the handler loads
  the row, adds one to its copy and writes the column back. Two requests that run one after
  the other raise the count by two; two requests that both load the row before either
  writes raise it by one. The like toggle is an existence query followed by a separate
  delete or insert, of which the insert alone is guarded by the unique constraint: when two
  requests of one user both find no like, the first inserts the row and the second is
  refused by the database, leaving the post liked.
\<close>

theorem view_increment_is_read_modify_write:
  assumes "tutorial_get db pk = Some t"
  shows "view_count_of (snd (increment_views pk (snd (increment_views pk db)))) pk
           = Some (tut_view_count t + 2)
       \<and> view_count_of (snd (increment_view_count t (snd (increment_view_count t db)))) pk
           = Some (tut_view_count t + 1)
       \<and> (\<forall>fdb u p. \<not> like_exists fdb u p \<longrightarrow>
            (\<exists>b fdb1. toggle_act False u p fdb = (Inr (200, b), fdb1)
               \<and> toggle_act False u p fdb1 = (Inl IntegrityError, fdb1)
               \<and> like_exists fdb1 u p))"
  using two_increments[OF assms] interleaved_toggle by blast

section \<open>Examples\<close>

lemma demo_post_get: "post_get demo_feed 1 = Some demo_post"
  by (simp add: post_get_def demo_feed_def demo_post_def)

lemma demo_tutorial_get: "tutorial_get demo_tutorials 1 = Some demo_tutorial"
  by (simp add: tutorial_get_def demo_tutorials_def demo_tutorial_def)

theorem like_toggle_involution_witness:
  "post_get demo_feed 1 = Some demo_post
   \<and> distinct [2, 3, 4 :: nat]
   \<and> likes_count demo_feed demo_post = 0
   \<and> likes_count (toggle_all [2, 3, 4] 1 demo_feed) demo_post = 3
   \<and> likes_count (toggle_all [4, 2, 3] 1 demo_feed) demo_post = 3
   \<and> snd (toggle_post_like 2 1 (snd (toggle_post_like 2 1 demo_feed))) = demo_feed"
proof -
  have none: "\<forall>v \<in> set [2, 3, 4 :: nat]. \<not> like_exists demo_feed v demo_post"
    by (simp add: like_exists_def demo_feed_def)
  have none': "\<forall>v \<in> set [4, 2, 3 :: nat]. \<not> like_exists demo_feed v demo_post"
    by (simp add: like_exists_def demo_feed_def)
  have zero: "likes_count demo_feed demo_post = 0"
    by (simp add: likes_count_def demo_feed_def)
  have d: "distinct [2, 3, 4 :: nat]" "distinct [4, 2, 3 :: nat]"
    by simp_all
  have twice: "snd (toggle_post_like 2 1 (snd (toggle_post_like 2 1 demo_feed))) = demo_feed"
    by (simp add: toggle_post_like_def toggle_act_def like_create_def like_delete_def like_exists_def
        post_get_def demo_feed_def demo_post_def Let_def)
  have a: "likes_count (toggle_all [2, 3, 4] 1 demo_feed) demo_post = likes_count demo_feed demo_post + length [2, 3, 4 :: nat]"
    using like_toggle_involution[OF demo_post_get, of 2 "[2, 3, 4]"] d(1) none by blast
  have b: "likes_count (toggle_all [4, 2, 3] 1 demo_feed) demo_post = likes_count demo_feed demo_post + length [4, 2, 3 :: nat]"
    using like_toggle_involution[OF demo_post_get, of 2 "[4, 2, 3]"] d(2) none' by blast
  show ?thesis
    using a b zero twice demo_post_get by simp
qed

text \<open>
  The claim as stated fails: two requests that have both loaded a tutorial with no views
  leave it with one view.
\<close>

theorem concurrent_view_increments_counterexample:
  "tutorial_get demo_tutorials 1 = Some demo_tutorial
   \<and> view_count_of demo_tutorials 1 = Some 0
   \<and> view_count_of
        (snd (increment_view_count demo_tutorial (snd (increment_view_count demo_tutorial demo_tutorials)))) 1
       = Some 1"
  by (simp add: tutorial_get_def view_count_of_def increment_view_count_def save_view_count_def
      demo_tutorials_def demo_tutorial_def Let_def)

theorem view_increment_is_read_modify_write_witness:
  "tutorial_get demo_tutorials 1 = Some demo_tutorial
   \<and> view_count_of (snd (increment_views 1 (snd (increment_views 1 demo_tutorials)))) 1 = Some 2
   \<and> view_count_of
        (snd (increment_view_count demo_tutorial (snd (increment_view_count demo_tutorial demo_tutorials)))) 1
       = Some 1"
proof -
  have z: "tut_view_count demo_tutorial = 0"
    by (simp add: demo_tutorial_def)
  show ?thesis
    using view_increment_is_read_modify_write[OF demo_tutorial_get] demo_tutorial_get z by simp
qed

text \<open>
  Claim C6. On the post of user 1, a delete and an edit by user 2 leave the database as it
  was, but the \<open>PermissionError\<close> the hooks raise escapes the view and is answered with
  500; the post views answer 403 in no case. The same attempt on a comment is answered 403.
\<close>

theorem post_owner_check_escapes:
  "post_destroy 2 1 demo_feed = (Inl (PermissionError ''You can only delete your own posts''), demo_feed)
   \<and> http_status (fst (post_destroy 2 1 demo_feed)) = 500
   \<and> post_update 2 1 (Inr ''edited'') demo_feed = (Inl (PermissionError ''You can only edit your own posts''), demo_feed)
   \<and> http_status (fst (post_update 2 1 (Inr ''edited'') demo_feed)) = 500
   \<and> delete_comment 2 1 1 demo_feed = (Inr (403, FeedError ''You can only delete your own comments''), demo_feed)
   \<and> http_status (fst (post_destroy u pk db)) \<noteq> 403
   \<and> http_status (fst (post_update u pk data db)) \<noteq> 403"
  using post_views_never_403[of u pk db data]
  by (simp add: post_destroy_def perform_destroy_def post_update_def perform_update_def http_status_def
      delete_comment_def post_get_def demo_feed_def demo_post_def)

text \<open>
  Claim C5. A farmer's upload of valid data creates no row, but it is refused by the
  serializer's \<open>validate\<close>, which runs before \<open>perform_create\<close>, and answered with
  400; tutorial creation answers 403 in no case.
\<close>

theorem tutorial_role_check_answers_400:
  "tutorial_post demo_farmer (Inr demo_fields) demo_tutorials
     = (Inr (400, TutorialError ''Only extension workers can upload tutorials''), demo_tutorials)
   \<and> http_status (fst (tutorial_post demo_farmer (Inr demo_fields) demo_tutorials)) = 400
   \<and> http_status (fst (tutorial_post u data db)) \<noteq> 403"
  using tutorial_post_never_403[of u data db]
  by (simp add: tutorial_post_def tutorial_create_def mixin_create_def serializer_validate_def
      handle_exception_def http_status_def demo_farmer_def)

end
